theory Spec2Isabelle
  imports Main "HOL-Library.Sublist" "HOL-Library.Multiset"
begin

section \<open>Go values and the standard library\<close>

text \<open>
  A \<open>time.Time\<close> is an instant, held as seconds since the Unix epoch; \<open>After\<close> compares
  instants. A Go \<open>string\<close> is a list of bytes.
\<close>

type_synonym Time = int

definition After :: "Time \<Rightarrow> Time \<Rightarrow> bool" where
  "After t u = (u < t)"

text \<open>
  Errors are values. Every \<open>fmt.Errorf\<close> call site of the adapters has its constructor:
  \<^item> \<open>Wrap ctx e\<close> is \<open>fmt.Errorf("ctx: %w", e)\<close>;
  \<^item> \<open>UnexpectedStatusCode n\<close> is \<open>fmt.Errorf("unexpected status code: %d", n)\<close>;
  \<^item> \<open>FileNotFound p\<close> is \<open>fmt.Errorf("file not found (404): %s", p)\<close>;
  \<^item> \<open>RateLimitExceeded\<close> is \<open>fmt.Errorf("rate limit exceeded (403) - consider setting
    GITHUB_TOKEN environment variable")\<close>;
  \<^item> \<open>CouldNotFindLatestVersion\<close> is \<open>fmt.Errorf("could not find latest version")\<close>;
  \<^item> \<open>LibError msg\<close> is an error made by the standard library (transport, I/O, decoding).
\<close>

datatype error =
    LibError string
  | Wrap string error
  | UnexpectedStatusCode int
  | FileNotFound string
  | RateLimitExceeded
  | CouldNotFindLatestVersion

text \<open>
  An HTTP response as the adapters read it: the status code and the outcome of
  \<open>io.ReadAll(resp.Body)\<close>.
\<close>

record Response =
  StatusCode :: int
  Body :: "error + string"

definition StatusOK :: int where "StatusOK = 200"
definition StatusForbidden :: int where "StatusForbidden = 403"
definition StatusNotFound :: int where "StatusNotFound = 404"

text \<open>\<open>strings.Contains\<close>, \<open>strings.TrimSuffix\<close>, \<open>strings.TrimPrefix\<close>, \<open>strings.HasSuffix\<close>.\<close>

fun Contains :: "string \<Rightarrow> string \<Rightarrow> bool" where
  "Contains [] sub = (sub = [])"
| "Contains (c # cs) sub = (prefix sub (c # cs) \<or> Contains cs sub)"

definition TrimPrefix :: "string \<Rightarrow> string \<Rightarrow> string" where
  "TrimPrefix s p = (if prefix p s then drop (length p) s else s)"

definition HasSuffix :: "string \<Rightarrow> string \<Rightarrow> bool" where
  "HasSuffix s x = (length x \<le> length s \<and> drop (length s - length x) s = x)"

definition TrimSuffix :: "string \<Rightarrow> string \<Rightarrow> string" where
  "TrimSuffix s x = (if HasSuffix s x then take (length s - length x) s else s)"

text \<open>
  \<open>strings.Split(s, sep)\<close> for a non-empty separator, and \<open>strings.ReplaceAll(s, old, new)\<close>
  for \<open>old\<close> of one byte: the only uses the adapters make of them.
\<close>

function Split :: "string \<Rightarrow> string \<Rightarrow> string list" where
  "Split [] sep = [[]]"
| "Split (c # cs) sep =
     (if sep \<noteq> [] \<and> prefix sep (c # cs) then [] # Split (drop (length sep) (c # cs)) sep
      else (case Split cs sep of [] \<Rightarrow> [[c]] | p # ps \<Rightarrow> (c # p) # ps))"
  by pat_completeness auto
termination
  by (relation "measure (\<lambda>(s, sep). length s)") auto

definition ReplaceAll :: "string \<Rightarrow> char \<Rightarrow> string \<Rightarrow> string" where
  "ReplaceAll s old new = concat (map (\<lambda>c. if c = old then new else [c]) s)"

fun Join :: "string list \<Rightarrow> string \<Rightarrow> string" where
  "Join [] sep = []"
| "Join [x] sep = x"
| "Join (x # y # ys) sep = x @ sep @ Join (y # ys) sep"

text \<open>
  A Go map is held as an association list; \<open>map_of\<close> looks a key up and \<open>entries\<close>
  keeps the first binding of each key. The order in which \<open>range\<close> visits a map is not
  specified by the language and differs from run to run; the order in which goroutines
  finish is up to the scheduler. Both are a permutation chosen by the run, given here by
  a list of picks: each pick selects the next element among those that remain.
\<close>

fun entries :: "('k \<times> 'v) list \<Rightarrow> ('k \<times> 'v) list" where
  "entries [] = []"
| "entries (kv # kvs) = kv # entries (filter (\<lambda>x. fst x \<noteq> fst kv) kvs)"

fun pick_order :: "nat list \<Rightarrow> 'a list \<Rightarrow> 'a list" where
  "pick_order ps [] = []"
| "pick_order [] xs = xs"
| "pick_order (p # ps) xs =
     (let i = p mod length xs
      in xs ! i # pick_order ps (take i xs @ drop (Suc i) xs))"

definition range_map :: "nat list \<Rightarrow> ('k \<times> 'v) list \<Rightarrow> ('k \<times> 'v) list" where
  "range_map picks m = pick_order picks (entries m)"

text \<open>A map assignment \<open>m[k] = v\<close>.\<close>

fun map_store :: "('k \<times> 'v) list \<Rightarrow> 'k \<Rightarrow> 'v \<Rightarrow> ('k \<times> 'v) list" where
  "map_store [] k v = [(k, v)]"
| "map_store (kv # kvs) k v = (if fst kv = k then (k, v) # kvs else kv # map_store kvs k v)"

section \<open>The data model (internal/models)\<close>

record SourceRepo =
  sr_Type :: string
  sr_URL :: string
  sr_Owner :: string
  sr_Repo :: string

record Release =
  r_Version :: string
  r_Date :: Time
  r_Title :: string
  r_Description :: string
  r_URL :: string
  r_Type :: string

record OSInfo =
  Stream :: string
  FedoraVersion :: string
  CentOSVersion :: string
  BuildNumber :: string
  CommitHash :: string
  ImageName :: string
  KernelVersion :: string
  GnomeVersion :: string
  MesaVersion :: string
  MajorPackages :: "(string \<times> string) list"

record HomebrewInfo =
  Formula :: string
  FullName :: string
  Tap :: string
  Homepage :: string
  Versions :: "string list"

record App =
  ID :: string
  Name :: string
  Summary :: string
  Description :: string
  DeveloperName :: string
  Icon :: string
  ProjectLicense :: string
  Categories :: "string list"
  UpdatedAt :: string
  Version :: string
  ReleaseDate :: string
  FlathubURL :: string
  SourceRepo :: "SourceRepo option"
  Releases :: "Release list"
  FetchedAt :: Time
  PackageType :: string
  OSInfo :: "OSInfo option"
  HomebrewInfo :: "HomebrewInfo option"

record FlathubApp =
  fa_ID :: string
  fa_Name :: string
  fa_Summary :: string
  fa_DeveloperName :: string
  fa_Icon :: string
  fa_ProjectLicense :: string
  fa_Categories :: "string list"
  fa_CurrentReleaseVersion :: string
  fa_CurrentReleaseDate :: string

record FlathubReleaseEntry =
  fr_Version :: string
  fr_Date :: string
  fr_Description :: string

record FlathubAppDetails =
  d_ID :: string
  d_Name :: string
  d_Summary :: string
  d_Description :: string
  d_URLs :: "(string \<times> string) list option"
  d_Releases :: "FlathubReleaseEntry list"

record FetchResults =
  Apps :: "App list"

text \<open>The output document (internal/models).\<close>

record Stats =
  AppsTotal :: int
  AppsWithGitHubRepo :: int
  AppsWithChangelogs :: int
  TotalReleases :: int

record Performance =
  FlathubFetchDuration :: string
  DetailsFetchDuration :: string
  GitHubFetchDuration :: string
  OutputDuration :: string

record Metadata =
  SchemaVersion :: string
  GeneratedAt :: string
  GeneratedBy :: string
  BuildDuration :: string
  Stats :: Stats
  Performance :: Performance

record OutputData =
  out_Metadata :: Metadata
  out_Apps :: "App list"

text \<open>Adapter-native records (internal/bluefin).\<close>

record AppSetInfo =
  AppID :: string
  AppSet :: string

record GitHubRelease =
  TagName :: string
  gh_Name :: string
  gh_Body :: string
  HTMLURL :: string
  PublishedAt :: Time
  Draft :: bool
  Prerelease :: bool

text \<open>
  \<open>HomebrewFormula\<close> with its nested structs flattened: \<open>hf_Versions_Stable\<close> is
  \<open>Versions.Stable\<close>, \<open>hf_URLs_Stable_URL\<close> is \<open>URLs.Stable.URL\<close>, and \<open>hf_Bottle\<close> is
  \<open>None\<close> for a nil \<open>Bottle\<close> and otherwise the keys of \<open>Bottle.Stable.Files\<close>.
\<close>

record HomebrewFormula =
  hf_Name :: string
  hf_FullName :: string
  hf_Tap :: string
  hf_Desc :: string
  hf_License :: string
  hf_Homepage :: string
  hf_Versions_Stable :: string
  hf_URLs_Stable_URL :: string
  hf_Deprecated :: bool
  hf_Disabled :: bool
  hf_Bottle :: "string list option"

section \<open>The environment of a run\<close>

text \<open>
  What the code reads from outside itself is a field of the environment: the upstream
  servers (the outcome of a GET request to a URL, with the credential of the run), the
  clock, the disk, and the library functions whose definition lies outside this
  repository's sources (encoding/json, regexp, time, the markdown renderer). A regular
  expression is passed as its pattern text. \<open>regexp_FindStringSubmatch\<close> returns \<open>[]\<close>
  for Go's nil; \<open>os_Write\<close> returns the number of bytes written and the error, as
  \<open>File.Write\<close> does. \<open>time_Now\<close> is one reading of the clock: every \<open>time.Now()\<close> of
  a run returns it, so the statements below say nothing about how \<open>FetchedAt\<close> or a
  fallback date differ between two calls of the same run.
\<close>

record Env =
  http_NewRequest :: "string \<Rightarrow> error option"
  http_Do :: "string \<Rightarrow> error + Response"
  Unmarshal_FlathubApps :: "string \<Rightarrow> error + FlathubApp list"
  Unmarshal_FlathubAppDetails :: "string \<Rightarrow> error + FlathubAppDetails"
  Unmarshal_GitHubReleases :: "string \<Rightarrow> error + GitHubRelease list"
  Unmarshal_HomebrewFormula :: "string \<Rightarrow> error + HomebrewFormula"
  json_Marshal :: "OutputData \<Rightarrow> error + string"
  os_Create :: "string \<Rightarrow> error option"
  os_Write :: "string \<Rightarrow> string \<Rightarrow> nat \<times> error option"
  time_Parse :: "string \<Rightarrow> string \<Rightarrow> error + Time"
  time_Now :: Time
  time_Format :: "string \<Rightarrow> Time \<Rightarrow> string"
  regexp_FindStringSubmatch :: "string \<Rightarrow> string \<Rightarrow> string list"
  regexp_FindStringIndex :: "string \<Rightarrow> string \<Rightarrow> (nat \<times> nat) option"
  regexp_FindAllStringSubmatch :: "string \<Rightarrow> string \<Rightarrow> string list list"
  regexp_ReplaceAllString :: "string \<Rightarrow> string \<Rightarrow> string \<Rightarrow> string"
  strings_TrimSpace :: "string \<Rightarrow> string"
  markdown_ToHTML :: "string \<Rightarrow> string"

text \<open>\<open>http.Get\<close> builds the request and sends it.\<close>

definition http_Get :: "Env \<Rightarrow> string \<Rightarrow> error + Response" where
  "http_Get env url =
     (case http_NewRequest env url of Some err \<Rightarrow> Inl err | None \<Rightarrow> http_Do env url)"

definition bsl :: string where "bsl = [CHR 0x5C]"
definition nl :: string where "nl = [CHR 0x0A]"

definition RFC3339 :: string where "RFC3339 = ''2006-01-02T15:04:05Z07:00''"

text \<open>\<open>regexp.QuoteMeta\<close>: a backslash before each metacharacter.\<close>

definition QuoteMeta :: "string \<Rightarrow> string" where
  \<open>QuoteMeta s =
     concat (map (\<lambda>c. if c \<in> set (bsl @ ''.+*?()|[]{}^$'') then bsl @ [c] else [c]) s)\<close>

text \<open>\<open>log.Fatalf\<close> ends the process; a function that may call it returns a \<open>run\<close>.\<close>

datatype 'a run = Fatal string error | Returns 'a

section \<open>internal/flathub\<close>

definition FlathubAPIBase :: string where
  "FlathubAPIBase = ''https://flathub.org/api/v2''"

definition FetchRecentlyUpdated :: "Env \<Rightarrow> error + FlathubApp list" where
  "FetchRecentlyUpdated env =
     (case http_Get env (FlathubAPIBase @ ''/feed/recently-updated'') of
        Inl err \<Rightarrow> Inl (Wrap ''fetch recently updated'' err)
      | Inr resp \<Rightarrow>
          if StatusCode resp \<noteq> StatusOK then Inl (UnexpectedStatusCode (StatusCode resp))
          else (case Body resp of
                  Inl err \<Rightarrow> Inl (Wrap ''read response body'' err)
                | Inr body \<Rightarrow>
                    (case Unmarshal_FlathubApps env body of
                       Inl err \<Rightarrow> Inl (Wrap ''unmarshal response'' err)
                     | Inr apps \<Rightarrow> Inr apps)))"

text \<open>The result \<open>Inr None\<close> is Go's \<open>(nil, nil)\<close>.\<close>

definition FetchAppDetails :: "Env \<Rightarrow> string \<Rightarrow> error + FlathubAppDetails option" where
  "FetchAppDetails env appID =
     (case http_Get env (FlathubAPIBase @ ''/appstream/'' @ appID) of
        Inl err \<Rightarrow> Inl (Wrap ''fetch app details'' err)
      | Inr resp \<Rightarrow>
          if StatusCode resp = StatusNotFound then Inr None
          else if StatusCode resp \<noteq> StatusOK
          then Inl (UnexpectedStatusCode (StatusCode resp))
          else (case Body resp of
                  Inl err \<Rightarrow> Inl (Wrap ''read response body'' err)
                | Inr body \<Rightarrow>
                    (case Unmarshal_FlathubAppDetails env body of
                       Inl err \<Rightarrow> Inl (Wrap ''unmarshal response'' err)
                     | Inr details \<Rightarrow> Inr (Some details))))"

definition extractGitHubRepo :: "Env \<Rightarrow> string \<Rightarrow> SourceRepo" where
  \<open>extractGitHubRepo env url =
     (let matches = regexp_FindStringSubmatch env
                      (''github'' @ bsl @ ''.com/([^/]+)/([^/'' @ bsl @ ''s?#]+)'') url
      in if length matches < 3
         then \<lparr>sr_Type = ''github'', sr_URL = url, sr_Owner = '''', sr_Repo = ''''\<rparr>
         else \<lparr>sr_Type = ''github'', sr_URL = url, sr_Owner = matches ! 1,
               sr_Repo = TrimSuffix (matches ! 2) ''.git''\<rparr>)\<close>

text \<open>
  \<open>picks\<close> is the order in which this call's \<open>range details.URLs\<close> visits the map; the
  loop takes the first URL visited.
\<close>

definition ExtractSourceRepo ::
  "Env \<Rightarrow> nat list \<Rightarrow> FlathubAppDetails option \<Rightarrow> SourceRepo option" where
  "ExtractSourceRepo env picks details =
     (case details of
        None \<Rightarrow> None
      | Some d \<Rightarrow>
          (case d_URLs d of
             None \<Rightarrow> None
           | Some urls \<Rightarrow>
               (let repoURL =
                      (case map_of urls ''homepage'' of
                         Some homepage \<Rightarrow> homepage
                       | None \<Rightarrow>
                           (case map_of urls ''bugtracker'' of
                              Some bugtracker \<Rightarrow> bugtracker
                            | None \<Rightarrow>
                                (case range_map picks urls of
                                   [] \<Rightarrow> ''''
                                 | kv # rest \<Rightarrow> snd kv)))
                in if repoURL = '''' then None
                   else if Contains repoURL ''github.com''
                   then Some (extractGitHubRepo env repoURL)
                   else if Contains repoURL ''gitlab.com''
                   then Some \<lparr>sr_Type = ''gitlab'', sr_URL = repoURL,
                              sr_Owner = '''', sr_Repo = ''''\<rparr>
                   else Some \<lparr>sr_Type = ''other'', sr_URL = repoURL,
                              sr_Owner = '''', sr_Repo = ''''\<rparr>)))"

text \<open>The loop of \<open>ConvertFlathubReleases\<close>, with \<open>result\<close> as it grows.\<close>

fun ConvertFlathubReleases_loop ::
  "Env \<Rightarrow> Release list \<Rightarrow> FlathubReleaseEntry list \<Rightarrow> Release list" where
  "ConvertFlathubReleases_loop env result [] = result"
| "ConvertFlathubReleases_loop env result (release # releases) =
     (let date =
            (case time_Parse env ''2006-01-02'' (fr_Date release) of
               Inr d \<Rightarrow> d
             | Inl err \<Rightarrow>
                 (case time_Parse env RFC3339 (fr_Date release) of
                    Inr d \<Rightarrow> d
                  | Inl err \<Rightarrow> time_Now env))
      in ConvertFlathubReleases_loop env
           (result @ [\<lparr>r_Version = fr_Version release, r_Date = date,
                        r_Title = ''Version '' @ fr_Version release,
                        r_Description = fr_Description release, r_URL = '''',
                        r_Type = ''appstream''\<rparr>])
           releases)"

definition ConvertFlathubReleases :: "Env \<Rightarrow> FlathubReleaseEntry list \<Rightarrow> Release list" where
  "ConvertFlathubReleases env releases = ConvertFlathubReleases_loop env [] releases"

definition enrichApp :: "Env \<Rightarrow> nat list \<Rightarrow> FlathubApp \<Rightarrow> App" where
  "enrichApp env picks flathubApp =
     (let fetchedAt = time_Now env;
          app = \<lparr>ID = fa_ID flathubApp, Name = fa_Name flathubApp,
                 Summary = fa_Summary flathubApp, Description = '''',
                 DeveloperName = fa_DeveloperName flathubApp, Icon = fa_Icon flathubApp,
                 ProjectLicense = fa_ProjectLicense flathubApp,
                 Categories = fa_Categories flathubApp, UpdatedAt = '''',
                 Version = fa_CurrentReleaseVersion flathubApp,
                 ReleaseDate = fa_CurrentReleaseDate flathubApp,
                 FlathubURL = ''https://flathub.org/apps/'' @ fa_ID flathubApp,
                 SourceRepo = None, Releases = [], FetchedAt = fetchedAt,
                 PackageType = '''', OSInfo = None, HomebrewInfo = None\<rparr>
      in case FetchAppDetails env (fa_ID flathubApp) of
           Inl err \<Rightarrow> app
         | Inr None \<Rightarrow> app
         | Inr (Some details) \<Rightarrow>
             (let app1 = app\<lparr>Description := d_Description details\<rparr>;
                  app2 = (case ExtractSourceRepo env picks (Some details) of
                            None \<Rightarrow> app1
                          | Some sourceRepo \<Rightarrow> app1\<lparr>SourceRepo := Some sourceRepo\<rparr>)
              in if length (d_Releases details) > 0
                 then app2\<lparr>Releases := ConvertFlathubReleases env (d_Releases details)\<rparr>
                 else app2))"

text \<open>
  \<open>FetchAllApps\<close> starts one goroutine per app; each appends its result to \<open>allApps\<close>
  under the mutex when it finishes. \<open>sched\<close> is the order in which the goroutines of this
  run finish, and \<open>picks i\<close> the map order seen by goroutine \<open>i\<close>.
\<close>

definition FetchAllApps :: "Env \<Rightarrow> nat list \<Rightarrow> (nat \<Rightarrow> nat list) \<Rightarrow> FetchResults run" where
  "FetchAllApps env sched picks =
     (case FetchRecentlyUpdated env of
        Inl err \<Rightarrow> Fatal ''Failed to fetch apps'' err
      | Inr flathubApps \<Rightarrow>
          (let appsToFetch = (if length flathubApps > 50 then take 50 flathubApps
                              else flathubApps)
           in Returns \<lparr>Apps = pick_order sched
                                 (map (\<lambda>(i, fa). enrichApp env (picks i) fa)
                                      (enumerate 0 appsToFetch))\<rparr>))"

section \<open>internal/bluefin: the curated lists\<close>

definition BluefinCommonOwner :: string where "BluefinCommonOwner = ''projectbluefin''"
definition BluefinCommonRepo :: string where "BluefinCommonRepo = ''common''"
definition BluefinCommonBranch :: string where "BluefinCommonBranch = ''main''"

definition fetchRawFile :: "Env \<Rightarrow> string \<Rightarrow> string \<Rightarrow> string \<Rightarrow> string \<Rightarrow> error + string" where
  "fetchRawFile env owner repo branch path =
     (let url = ''https://raw.githubusercontent.com/'' @ owner @ ''/'' @ repo @ ''/''
                @ branch @ ''/'' @ path
      in case http_NewRequest env url of
           Some err \<Rightarrow> Inl (Wrap ''create request'' err)
         | None \<Rightarrow>
             (case http_Do env url of
                Inl err \<Rightarrow> Inl (Wrap ''fetch file'' err)
              | Inr resp \<Rightarrow>
                  if StatusCode resp = StatusNotFound then Inl (FileNotFound path)
                  else if StatusCode resp = StatusForbidden then Inl RateLimitExceeded
                  else if StatusCode resp \<noteq> StatusOK
                  then Inl (UnexpectedStatusCode (StatusCode resp))
                  else (case Body resp of
                          Inl err \<Rightarrow> Inl (Wrap ''read response body'' err)
                        | Inr body \<Rightarrow> Inr body)))"

fun submatch_loop :: "string list \<Rightarrow> string list list \<Rightarrow> string list" where
  "submatch_loop acc [] = acc"
| "submatch_loop acc (match # matches) =
     (if length match \<ge> 2 then submatch_loop (acc @ [match ! 1]) matches
      else submatch_loop acc matches)"

definition parseFlatpakBrewfile :: "Env \<Rightarrow> string \<Rightarrow> string list" where
  \<open>parseFlatpakBrewfile env content =
     submatch_loop []
       (regexp_FindAllStringSubmatch env (''flatpak'' @ bsl @ ''s+"([^"]+)"'') content)\<close>



definition flatpak_brewfiles :: "(string \<times> string) list" where
  "flatpak_brewfiles =
     [(''system_files/bluefin/usr/share/ublue-os/homebrew/system-flatpaks.Brewfile'', ''core''),
      (''system_files/bluefin/usr/share/ublue-os/homebrew/system-dx-flatpaks.Brewfile'', ''dx'')]"

text \<open>
  The loop of \<open>FetchFlatpakListWithAppSets\<close> over the Brewfiles still to visit, with
  \<open>allAppSetInfos\<close> as it grows; a file whose fetch fails is skipped.
\<close>

fun FetchFlatpakList_loop ::
  "Env \<Rightarrow> AppSetInfo list \<Rightarrow> (string \<times> string) list \<Rightarrow> AppSetInfo list" where
  "FetchFlatpakList_loop env allAppSetInfos [] = allAppSetInfos"
| "FetchFlatpakList_loop env allAppSetInfos (kv # rest) =
     (case fetchRawFile env BluefinCommonOwner BluefinCommonRepo BluefinCommonBranch (fst kv) of
        Inl err \<Rightarrow> FetchFlatpakList_loop env allAppSetInfos rest
      | Inr content \<Rightarrow>
          FetchFlatpakList_loop env
            (allAppSetInfos
             @ map (\<lambda>appID. \<lparr>AppID = appID, AppSet = snd kv\<rparr>) (parseFlatpakBrewfile env content))
            rest)"

text \<open>\<open>brewfiles\<close> is a map: \<open>picks\<close> is the order in which this run's \<open>range\<close> visits it.\<close>

definition FetchFlatpakListWithAppSets :: "Env \<Rightarrow> nat list \<Rightarrow> error + AppSetInfo list" where
  "FetchFlatpakListWithAppSets env picks =
     Inr (FetchFlatpakList_loop env [] (range_map picks flatpak_brewfiles))"

definition FetchFlatpakList :: "Env \<Rightarrow> nat list \<Rightarrow> error + string list" where
  "FetchFlatpakList env picks =
     (case FetchFlatpakListWithAppSets env picks of
        Inl err \<Rightarrow> Inl err
      | Inr appSetInfos \<Rightarrow> Inr (map AppID appSetInfos))"

definition parseHomebrewBrewfile :: "Env \<Rightarrow> string \<Rightarrow> string list" where
  \<open>parseHomebrewBrewfile env content =
     submatch_loop []
       (regexp_FindAllStringSubmatch env (''brew'' @ bsl @ ''s+"([^"]+)"'') content)\<close>


fun FetchHomebrewList_loop :: "Env \<Rightarrow> string list \<Rightarrow> string list \<Rightarrow> string list" where
  "FetchHomebrewList_loop env allPackages [] = allPackages"
| "FetchHomebrewList_loop env allPackages (brewfile # rest) =
     (case fetchRawFile env BluefinCommonOwner BluefinCommonRepo BluefinCommonBranch brewfile of
        Inl err \<Rightarrow> FetchHomebrewList_loop env allPackages rest
      | Inr content \<Rightarrow>
          FetchHomebrewList_loop env (allPackages @ parseHomebrewBrewfile env content) rest)"


section \<open>internal/bluefin: Homebrew packages\<close>

definition extractGitHubRepoFromURL :: "Env \<Rightarrow> string \<Rightarrow> SourceRepo option" where
  "extractGitHubRepoFromURL env urlStr =
     (let matches = regexp_FindStringSubmatch env
                      (''github'' @ bsl @ ''.com[/:]([^/]+)/([^/'' @ bsl @ ''.]+)'') urlStr
      in if length matches \<ge> 3
         then Some \<lparr>sr_Type = ''github'',
                    sr_URL = ''https://github.com/'' @ matches ! 1 @ ''/'' @ matches ! 2,
                    sr_Owner = matches ! 1, sr_Repo = matches ! 2\<rparr>
         else None)"

definition createMinimalHomebrewApp :: "Env \<Rightarrow> string \<Rightarrow> App" where
  "createMinimalHomebrewApp env packageName =
     (let cleanName0 = TrimPrefix packageName ''homebrew-'';
          cleanName = (if Contains cleanName0 ''/'' then last (Split cleanName0 ''/'')
                       else cleanName0)
      in \<lparr>ID = ''homebrew-'' @ ReplaceAll packageName (CHR ''/'') ''-'',
          Name = cleanName, Summary = ''Homebrew package: '' @ cleanName,
          Description = '''', DeveloperName = '''', Icon = '''', ProjectLicense = '''',
          Categories = [], UpdatedAt = '''', Version = '''', ReleaseDate = '''',
          FlathubURL = '''', SourceRepo = None, Releases = [], FetchedAt = time_Now env,
          PackageType = ''homebrew'', OSInfo = None,
          HomebrewInfo = Some \<lparr>Formula = packageName, FullName = '''', Tap = '''',
                                 Homepage = '''', Versions = []\<rparr>\<rparr>)"

fun linux_bottle :: "string list \<Rightarrow> bool" where
  "linux_bottle [] = False"
| "linux_bottle (filename # files) =
     (if Contains filename ''linux'' then True else linux_bottle files)"

definition isLinuxCompatible :: "HomebrewFormula \<Rightarrow> bool" where
  "isLinuxCompatible formula =
     (case hf_Bottle formula of None \<Rightarrow> True | Some files \<Rightarrow> linux_bottle files)"

definition convertHomebrewFormulaToApp :: "Env \<Rightarrow> HomebrewFormula \<Rightarrow> App" where
  "convertHomebrewFormulaToApp env formula =
     (let cleanName = TrimPrefix (hf_Name formula) ''homebrew-'';
          app = \<lparr>ID = ''homebrew-'' @ hf_Name formula, Name = cleanName,
                 Summary = hf_Desc formula, Description = hf_Desc formula,
                 DeveloperName = '''', Icon = '''', ProjectLicense = '''', Categories = [],
                 UpdatedAt = '''', Version = hf_Versions_Stable formula, ReleaseDate = '''',
                 FlathubURL = '''', SourceRepo = None, Releases = [],
                 FetchedAt = time_Now env, PackageType = ''homebrew'', OSInfo = None,
                 HomebrewInfo = Some \<lparr>Formula = hf_Name formula,
                                        FullName = hf_FullName formula, Tap = hf_Tap formula,
                                        Homepage = hf_Homepage formula,
                                        Versions = [hf_Versions_Stable formula]\<rparr>\<rparr>
      in if hf_URLs_Stable_URL formula \<noteq> ''''
         then (case extractGitHubRepoFromURL env (hf_URLs_Stable_URL formula) of
                 None \<Rightarrow> app
               | Some sourceRepo \<Rightarrow> app\<lparr>SourceRepo := Some sourceRepo\<rparr>)
         else if hf_Homepage formula \<noteq> '''' \<and> Contains (hf_Homepage formula) ''github.com''
         then (case extractGitHubRepoFromURL env (hf_Homepage formula) of
                 None \<Rightarrow> app
               | Some sourceRepo \<Rightarrow> app\<lparr>SourceRepo := Some sourceRepo\<rparr>)
         else app)"

definition fetchHomebrewPackageMetadata :: "Env \<Rightarrow> string \<Rightarrow> error + App option" where
  "fetchHomebrewPackageMetadata env packageName =
     (if Contains packageName ''/'' then Inr (Some (createMinimalHomebrewApp env packageName))
      else
        (let url = ''https://formulae.brew.sh/api/formula/'' @ packageName @ ''.json''
         in case http_NewRequest env url of
              Some err \<Rightarrow> Inl (Wrap ''create request'' err)
            | None \<Rightarrow>
                (case http_Do env url of
                   Inl err \<Rightarrow> Inl (Wrap ''fetch metadata'' err)
                 | Inr resp \<Rightarrow>
                     if StatusCode resp = StatusNotFound
                     then Inr (Some (createMinimalHomebrewApp env packageName))
                     else if StatusCode resp \<noteq> StatusOK
                     then Inl (UnexpectedStatusCode (StatusCode resp))
                     else (case Body resp of
                             Inl err \<Rightarrow> Inl (Wrap ''read response'' err)
                           | Inr body \<Rightarrow>
                               (case Unmarshal_HomebrewFormula env body of
                                  Inl err \<Rightarrow> Inl (Wrap ''unmarshal response'' err)
                                | Inr formula \<Rightarrow>
                                    if hf_Deprecated formula \<or> hf_Disabled formula
                                    then Inr None
                                    else if \<not> isLinuxCompatible formula then Inr None
                                    else Inr (Some (convertHomebrewFormulaToApp env
                                                      formula)))))))"



section \<open>internal/bluefin: OS releases\<close>

definition BluefinOSOwner :: string where "BluefinOSOwner = ''ublue-os''"
definition BluefinOSRepo :: string where "BluefinOSRepo = ''bluefin''"
definition BluefinImageURL :: string where "BluefinImageURL = ''ghcr.io/ublue-os/bluefin''"

definition parseReleaseNotes :: "Env \<Rightarrow> string \<Rightarrow> string" where
  "parseReleaseNotes env body = markdown_ToHTML env body"

text \<open>
  The request that opens both \<open>FetchBluefinReleases\<close> and \<open>FetchBluefinOSApps\<close>, down to
  the decoded \<open>githubReleases\<close>.
\<close>

definition github_releases_request :: "Env \<Rightarrow> error + GitHubRelease list" where
  "github_releases_request env =
     (let url = ''https://api.github.com/repos/'' @ BluefinOSOwner @ ''/'' @ BluefinOSRepo
                @ ''/releases?per_page=10''
      in case http_NewRequest env url of
           Some err \<Rightarrow> Inl (Wrap ''create request'' err)
         | None \<Rightarrow>
             (case http_Do env url of
                Inl err \<Rightarrow> Inl (Wrap ''fetch releases'' err)
              | Inr resp \<Rightarrow>
                  if StatusCode resp = StatusForbidden then Inl RateLimitExceeded
                  else if StatusCode resp \<noteq> StatusOK
                  then Inl (UnexpectedStatusCode (StatusCode resp))
                  else (case Body resp of
                          Inl err \<Rightarrow> Inl (Wrap ''read response body'' err)
                        | Inr body \<Rightarrow>
                            (case Unmarshal_GitHubReleases env body of
                               Inl err \<Rightarrow> Inl (Wrap ''unmarshal response'' err)
                             | Inr githubReleases \<Rightarrow> Inr githubReleases))))"

fun FetchBluefinReleases_loop ::
  "Env \<Rightarrow> Release list \<Rightarrow> GitHubRelease list \<Rightarrow> Release list" where
  "FetchBluefinReleases_loop env releases [] = releases"
| "FetchBluefinReleases_loop env releases (ghRelease # rest) =
     (if Draft ghRelease \<or> Prerelease ghRelease
      then FetchBluefinReleases_loop env releases rest
      else FetchBluefinReleases_loop env
             (releases @ [\<lparr>r_Version = TagName ghRelease, r_Date = PublishedAt ghRelease,
                            r_Title = gh_Name ghRelease,
                            r_Description = parseReleaseNotes env (gh_Body ghRelease),
                            r_URL = HTMLURL ghRelease, r_Type = ''bluefin-os-release''\<rparr>])
             rest)"

definition FetchBluefinReleases :: "Env \<Rightarrow> error + Release list" where
  "FetchBluefinReleases env =
     (case github_releases_request env of
        Inl err \<Rightarrow> Inl err
      | Inr githubReleases \<Rightarrow> Inr (FetchBluefinReleases_loop env [] githubReleases))"

definition arrow :: string where
  "arrow = [CHR 0xE2, CHR 0x9E, CHR 0xA1, CHR 0xEF, CHR 0xB8, CHR 0x8F]"

definition extractPackageVersion :: "Env \<Rightarrow> string \<Rightarrow> string \<Rightarrow> string" where
  "extractPackageVersion env body packageName =
     (let pattern = bsl @ ''|'' @ bsl @ ''s*'' @ bsl @ ''*'' @ bsl @ ''*''
                    @ QuoteMeta packageName
                    @ bsl @ ''*'' @ bsl @ ''*'' @ bsl @ ''s*'' @ bsl @ ''|'' @ bsl
                    @ ''s*([^'' @ bsl @ ''|]+)'' @ bsl @ ''s*'' @ bsl @ ''|'';
          match = regexp_FindStringSubmatch env pattern body
      in if length match > 1
         then (let version = strings_TrimSpace env (match ! 1)
               in if Contains version arrow \<and> length (Split version arrow) > 1
                  then strings_TrimSpace env (Split version arrow ! 1)
                  else version)
         else '''')"

fun majorPackages_loop :: "Env \<Rightarrow> string \<Rightarrow> string list \<Rightarrow> (string \<times> string) list" where
  "majorPackages_loop env body [] = []"
| "majorPackages_loop env body (name # names) =
     (let ver = extractPackageVersion env body name
      in if ver \<noteq> '''' then (name, ver) # majorPackages_loop env body names
         else majorPackages_loop env body names)"

definition parseOSInfo :: "Env \<Rightarrow> GitHubRelease \<Rightarrow> OSInfo" where
  "parseOSInfo env release =
     (let parts = Split (TagName release) ''-'';
          stream = (if length parts \<ge> 2 then parts ! 0 else ''stable'');
          buildNumber = (if length parts \<ge> 2 then parts ! 1 else TagName release);
          nameMatch = regexp_FindStringSubmatch env
                        (''F('' @ bsl @ ''d+)'' @ bsl @ ''.'' @ bsl @ ''d+'') (gh_Name release);
          fedoraVersion = (if length nameMatch > 1 then nameMatch ! 1 else '''');
          commitMatch = regexp_FindStringSubmatch env ''#([a-f0-9]+)'' (gh_Name release);
          commitHash = (if length commitMatch > 1 then commitMatch ! 1 else '''')
      in \<lparr>Stream = stream, FedoraVersion = fedoraVersion, CentOSVersion = '''',
          BuildNumber = buildNumber, CommitHash = commitHash,
          ImageName = BluefinImageURL @ '':'' @ stream,
          KernelVersion = extractPackageVersion env (gh_Body release) ''Kernel'',
          GnomeVersion = extractPackageVersion env (gh_Body release) ''Gnome'',
          MesaVersion = extractPackageVersion env (gh_Body release) ''Mesa'',
          MajorPackages = majorPackages_loop env (gh_Body release)
                            [''Podman'', ''Nvidia'', ''Docker'', ''Incus'']\<rparr>)"

definition formatOSName :: "OSInfo \<Rightarrow> string" where
  "formatOSName osInfo =
     (if Stream osInfo = ''gts'' then ''Bluefin GTS''
      else if Stream osInfo = ''lts'' then ''Bluefin LTS''
      else ''Bluefin'')"

definition extractSummary :: "GitHubRelease \<Rightarrow> OSInfo \<Rightarrow> string" where
  "extractSummary release osInfo =
     (let streamName = (if Stream osInfo = ''gts'' then ''GTS (General-Term Support)''
                        else if Stream osInfo = ''lts'' then ''LTS (Long-Term Support)''
                        else ''Stable'');
          baseOS = (if Stream osInfo = ''gts'' then ''Fedora '' @ FedoraVersion osInfo
                    else if Stream osInfo = ''lts''
                    then ''CentOS Stream '' @ CentOSVersion osInfo
                    else ''Fedora '' @ FedoraVersion osInfo);
          summary = streamName @ '' release based on '' @ baseOS
      in if KernelVersion osInfo \<noteq> ''''
         then summary @ '' with Kernel '' @ KernelVersion osInfo
         else summary)"

text \<open>The first loop of \<open>FetchBluefinOSApps\<close>, with the map \<open>latestByStream\<close> as it grows.\<close>

fun latestByStream_loop ::
  "Env \<Rightarrow> (string \<times> GitHubRelease) list \<Rightarrow> GitHubRelease list
   \<Rightarrow> (string \<times> GitHubRelease) list" where
  "latestByStream_loop env latestByStream [] = latestByStream"
| "latestByStream_loop env latestByStream (ghRelease # rest) =
     (if Draft ghRelease \<or> Prerelease ghRelease
      then latestByStream_loop env latestByStream rest
      else
        (let stream = Stream (parseOSInfo env ghRelease)
         in case map_of latestByStream stream of
              None \<Rightarrow>
                latestByStream_loop env (map_store latestByStream stream ghRelease) rest
            | Some existing \<Rightarrow>
                if After (PublishedAt ghRelease) (PublishedAt existing)
                then latestByStream_loop env (map_store latestByStream stream ghRelease) rest
                else latestByStream_loop env latestByStream rest))"

text \<open>The App that the second loop of \<open>FetchBluefinOSApps\<close> builds from one release.\<close>

definition bluefin_os_app :: "Env \<Rightarrow> GitHubRelease \<Rightarrow> App" where
  "bluefin_os_app env ghRelease =
     (let osInfo = parseOSInfo env ghRelease
      in \<lparr>ID = ''bluefin-os-'' @ Stream osInfo, Name = formatOSName osInfo,
          Summary = extractSummary ghRelease osInfo, Description = gh_Body ghRelease,
          DeveloperName = '''',
          Icon = ''https://avatars.githubusercontent.com/u/120078124?s=200&v=4'',
          ProjectLicense = '''', Categories = [],
          UpdatedAt = time_Format env RFC3339 (PublishedAt ghRelease),
          Version = TagName ghRelease,
          ReleaseDate = time_Format env RFC3339 (PublishedAt ghRelease),
          FlathubURL = HTMLURL ghRelease,
          SourceRepo = Some \<lparr>sr_Type = ''github'',
                               sr_URL = ''https://github.com/'' @ BluefinOSOwner @ ''/''
                                        @ BluefinOSRepo,
                               sr_Owner = BluefinOSOwner, sr_Repo = BluefinOSRepo\<rparr>,
          Releases = [\<lparr>r_Version = TagName ghRelease, r_Date = PublishedAt ghRelease,
                        r_Title = gh_Name ghRelease,
                        r_Description = parseReleaseNotes env (gh_Body ghRelease),
                        r_URL = HTMLURL ghRelease, r_Type = ''bluefin-os-release''\<rparr>],
          FetchedAt = time_Now env, PackageType = ''os'', OSInfo = Some osInfo,
          HomebrewInfo = None\<rparr>)"

text \<open>\<open>picks\<close> is the order in which this run's \<open>range latestByStream\<close> visits the map.\<close>

definition FetchBluefinOSApps :: "Env \<Rightarrow> nat list \<Rightarrow> error + App list" where
  "FetchBluefinOSApps env picks =
     (case github_releases_request env of
        Inl err \<Rightarrow> Inl err
      | Inr githubReleases \<Rightarrow>
          Inr (map (\<lambda>kv. bluefin_os_app env (snd kv))
                   (range_map picks (latestByStream_loop env [] githubReleases))))"

section \<open>internal/mozilla\<close>

definition cleanHTML :: "Env \<Rightarrow> string \<Rightarrow> string" where
  \<open>cleanHTML env html =
     (let text1 = ReplaceAll html (CHR 0x0A) '' '';
          text2 = ReplaceAll text1 (CHR 0x0D) '' '';
          text3 = regexp_ReplaceAllString env ''<code[^>]*>'' text2 ''`'';
          text4 = regexp_ReplaceAllString env ''</code>'' text3 ''`'';
          text5 = regexp_ReplaceAllString env ''<a[^>]*href="([^"]+)"[^>]*>(.*?)</a>'' text4
                    ''[$2]($1)'';
          text6 = regexp_ReplaceAllString env ''<[^>]+>'' text5 '''';
          text7 = regexp_ReplaceAllString env (bsl @ ''s+'') text6 '' ''
      in strings_TrimSpace env text7)\<close>

fun items_loop :: "Env \<Rightarrow> string list \<Rightarrow> string list list \<Rightarrow> string list" where
  "items_loop env items [] = items"
| "items_loop env items (match # matches) =
     (if length match > 1
      then (let content = cleanHTML env (match ! 1)
            in if content \<noteq> '''' then items_loop env (items @ [''- '' @ content]) matches
               else items_loop env items matches)
      else items_loop env items matches)"

definition extractSection :: "Env \<Rightarrow> string \<Rightarrow> string \<Rightarrow> string" where
  \<open>extractSection env html sectionName =
     (case regexp_FindStringIndex env (''<h3>'' @ QuoteMeta sectionName @ ''</h3>'') html of
        None \<Rightarrow> ''''
      | Some startIdx \<Rightarrow>
          (let remaining = drop (snd startIdx) html;
               ulMatches = regexp_FindStringSubmatch env ''(?s)<ul>(.*?)</ul>'' remaining
           in if length ulMatches < 2 then ''''
              else
                (let listHTML = ulMatches ! 1;
                     itemMatches =
                       regexp_FindAllStringSubmatch env
                         ''(?s)<li[^>]*class="release-note"[^>]*>.*?<div class="release-note-content">(.*?)</div>''
                         listHTML
                 in Join (items_loop env [] itemMatches) nl)))\<close>

fun sections_loop :: "Env \<Rightarrow> string \<Rightarrow> string list \<Rightarrow> string list" where
  "sections_loop env html [] = []"
| "sections_loop env html (name # names) =
     (let section = extractSection env html name
      in if section \<noteq> ''''
         then (''## '' @ name @ nl @ nl @ section) # sections_loop env html names
         else sections_loop env html names)"

definition extractFirefoxReleaseNotes :: "Env \<Rightarrow> string \<Rightarrow> string" where
  "extractFirefoxReleaseNotes env html =
     (let sections = sections_loop env html
                       [''New'', ''Fixed'', ''Changed'', ''Enterprise'', ''Developer'']
      in if length sections = 0
         then ''<p>Release notes available at the source link.</p>''
         else markdown_ToHTML env (Join sections (nl @ nl)))"

definition extractThunderbirdReleaseNotes :: "Env \<Rightarrow> string \<Rightarrow> string" where
  "extractThunderbirdReleaseNotes env html = extractFirefoxReleaseNotes env html"

definition extractReleaseDate :: "Env \<Rightarrow> string \<Rightarrow> string" where
  \<open>extractReleaseDate env html =
     (let matches = regexp_FindStringSubmatch env ''<time[^>]*datetime="([^"]+)"'' html
      in if length matches > 1 then matches ! 1 else '''')\<close>

text \<open>
  \<open>fetchFirefoxReleases\<close> and \<open>fetchThunderbirdReleases\<close> differ in the two URLs, the key
  of the version and the product name of the title; \<open>fetch_mozilla_releases\<close> is their
  common body. Neither checks the status code of a response.
\<close>

definition fetch_mozilla_releases ::
  "Env \<Rightarrow> string \<Rightarrow> string \<Rightarrow> string \<Rightarrow> string \<Rightarrow> (string \<Rightarrow> string) \<Rightarrow> error + Release list" where
  \<open>fetch_mozilla_releases env versionsURL versionKey notesBase product extract =
     (case http_Get env versionsURL of
        Inl err \<Rightarrow> Inl (Wrap ''fetch version info'' err)
      | Inr resp \<Rightarrow>
          (case Body resp of
             Inl err \<Rightarrow> Inl (Wrap ''read version info'' err)
           | Inr body \<Rightarrow>
               (let matches = regexp_FindStringSubmatch env
                                (''"'' @ versionKey @ ''":'' @ bsl @ ''s*"([^"]+)"'') body
                in if length matches < 2 then Inl CouldNotFindLatestVersion
                   else
                     (let version = matches ! 1;
                          releaseNotesURL = notesBase @ version @ ''/releasenotes/''
                      in case http_Get env releaseNotesURL of
                           Inl err \<Rightarrow> Inl (Wrap ''fetch release notes'' err)
                         | Inr resp2 \<Rightarrow>
                             (case Body resp2 of
                                Inl err \<Rightarrow> Inl (Wrap ''read release notes'' err)
                              | Inr html \<Rightarrow>
                                  (let description = extract html;
                                       dateStr = extractReleaseDate env html;
                                       releaseDate =
                                         (if dateStr \<noteq> ''''
                                          then (case time_Parse env ''January 2, 2006'' dateStr of
                                                  Inr parsed \<Rightarrow> parsed
                                                | Inl err \<Rightarrow> time_Now env)
                                          else time_Now env)
                                   in Inr [\<lparr>r_Version = version, r_Date = releaseDate,
                                             r_Title = product @ '' '' @ version,
                                             r_Description = description,
                                             r_URL = releaseNotesURL,
                                             r_Type = ''mozilla-release''\<rparr>]))))))\<close>

definition fetchFirefoxReleases :: "Env \<Rightarrow> error + Release list" where
  "fetchFirefoxReleases env =
     fetch_mozilla_releases env
       ''https://product-details.mozilla.org/1.0/firefox_versions.json''
       ''LATEST_FIREFOX_VERSION'' ''https://www.mozilla.org/en-US/firefox/'' ''Firefox''
       (extractFirefoxReleaseNotes env)"

definition fetchThunderbirdReleases :: "Env \<Rightarrow> error + Release list" where
  "fetchThunderbirdReleases env =
     fetch_mozilla_releases env
       ''https://product-details.mozilla.org/1.0/thunderbird_versions.json''
       ''LATEST_THUNDERBIRD_VERSION'' ''https://www.thunderbird.net/en-US/thunderbird/''
       ''Thunderbird'' (extractThunderbirdReleaseNotes env)"

text \<open>The body of the loop of \<open>EnrichWithMozillaReleases\<close>, on one element of the copy.\<close>

definition enrich_mozilla :: "Env \<Rightarrow> App \<Rightarrow> App" where
  "enrich_mozilla env app =
     (if ID app = ''org.mozilla.firefox''
      then (case fetchFirefoxReleases env of
              Inr releases \<Rightarrow> app\<lparr>Releases := releases\<rparr>
            | Inl err \<Rightarrow> app)
      else if ID app = ''org.mozilla.Thunderbird''
      then (case fetchThunderbirdReleases env of
              Inr releases \<Rightarrow> app\<lparr>Releases := releases\<rparr>
            | Inl err \<Rightarrow> app)
      else app)"

fun EnrichWithMozillaReleases_loop :: "Env \<Rightarrow> nat \<Rightarrow> nat \<Rightarrow> App list \<Rightarrow> App list" where
  "EnrichWithMozillaReleases_loop env i 0 enrichedApps = enrichedApps"
| "EnrichWithMozillaReleases_loop env i (Suc n) enrichedApps =
     EnrichWithMozillaReleases_loop env (Suc i) n
       (enrichedApps[i := enrich_mozilla env (enrichedApps ! i)])"

text \<open>The loop runs \<open>i\<close> from 0 over the \<open>len(apps)\<close> elements of the copy.\<close>

definition EnrichWithMozillaReleases :: "Env \<Rightarrow> App list \<Rightarrow> App list" where
  "EnrichWithMozillaReleases env apps =
     EnrichWithMozillaReleases_loop env 0 (length apps) apps"

section \<open>Writing the dataset (internal/models)\<close>

text \<open>
  The files of the disk are a map from path to contents. \<open>os.Create\<close> fails and leaves
  the disk as it was, or creates the file, truncating one that exists. \<open>Encode\<close>
  marshals the whole document first and then writes it with one \<open>Write\<close>, which may stop
  after a prefix. \<open>WriteJSON\<close> returns its error (\<open>None\<close> is nil) and the disk it leaves.
\<close>

type_synonym Files = "string \<Rightarrow> string option"

definition WriteJSON :: "Env \<Rightarrow> OutputData \<Rightarrow> string \<Rightarrow> Files \<Rightarrow> error option \<times> Files" where
  "WriteJSON env out path files =
     (case os_Create env path of
        Some err \<Rightarrow> (Some (Wrap ''create file'' err), files)
      | None \<Rightarrow>
          (let files1 = files(path \<mapsto> '''')
           in case json_Marshal env out of
                Inl err \<Rightarrow> (Some (Wrap ''encode JSON'' err), files1)
              | Inr doc \<Rightarrow>
                  (case os_Write env path doc of
                     (n, None) \<Rightarrow> (None, files1(path \<mapsto> take n doc))
                   | (n, Some err) \<Rightarrow>
                       (Some (Wrap ''encode JSON'' err), files1(path \<mapsto> take n doc)))))"

section \<open>Concrete runs\<close>

text \<open>
  Environments of concrete runs, on which the model is evaluated. \<open>offline_env\<close> is a run
  with no network and an empty input everywhere: every request fails in the transport,
  no text decodes, no pattern matches. Each other environment changes the fields named
  and answers the inputs that its run presents to the library as the library does.
\<close>

definition offline_env :: Env where
  "offline_env =
     \<lparr>http_NewRequest = (\<lambda>url. None),
      http_Do = (\<lambda>url. Inl (LibError ''dial tcp: connection refused'')),
      Unmarshal_FlathubApps = (\<lambda>body. Inl (LibError ''unexpected end of JSON input'')),
      Unmarshal_FlathubAppDetails = (\<lambda>body. Inl (LibError ''unexpected end of JSON input'')),
      Unmarshal_GitHubReleases = (\<lambda>body. Inl (LibError ''unexpected end of JSON input'')),
      Unmarshal_HomebrewFormula = (\<lambda>body. Inl (LibError ''unexpected end of JSON input'')),
      json_Marshal = (\<lambda>out. Inl (LibError ''json: unsupported value'')),
      os_Create = (\<lambda>path. None),
      os_Write = (\<lambda>path doc. (length doc, None)),
      time_Parse = (\<lambda>layout v. Inl (LibError ''parsing time'')),
      time_Now = 1770000000,
      time_Format = (\<lambda>layout t. ''''),
      regexp_FindStringSubmatch = (\<lambda>pattern s. []),
      regexp_FindStringIndex = (\<lambda>pattern s. None),
      regexp_FindAllStringSubmatch = (\<lambda>pattern s. []),
      regexp_ReplaceAllString = (\<lambda>pattern src repl. src),
      strings_TrimSpace = (\<lambda>s. s),
      markdown_ToHTML = (\<lambda>s. s)\<rparr>"

text \<open>Every request is answered with the status \<open>code\<close> and an empty body.\<close>

definition status_env :: "int \<Rightarrow> Env" where
  "status_env code = offline_env
     \<lparr>http_Do := (\<lambda>url. Inr \<lparr>StatusCode = code, Body = Inr ''''\<rparr>)\<rparr>"

text \<open>
  The GitHub API lists five releases of ublue-os/bluefin, with empty names and bodies:
  two of the stream \<open>stable\<close> and one of \<open>gts\<close>, a pre-release and a draft.
\<close>

definition gh :: "string \<Rightarrow> Time \<Rightarrow> bool \<Rightarrow> bool \<Rightarrow> GitHubRelease" where
  "gh tag t d p = \<lparr>TagName = tag, gh_Name = '''', gh_Body = '''', HTMLURL = '''',
                   PublishedAt = t, Draft = d, Prerelease = p\<rparr>"

definition bluefin_releases :: "GitHubRelease list" where
  "bluefin_releases =
     [gh ''stable-20260127'' 1769472000 False False,
      gh ''gts-20260203'' 1770076800 False False,
      gh ''stable-20260203'' 1770076800 False False,
      gh ''beta-20260204'' 1770163200 False True,
      gh ''stable-20260205'' 1770249600 True False]"

definition bluefin_body :: string where
  \<open>bluefin_body =
     ''[{"tag_name":"stable-20260127","published_at":"2026-01-27T00:00:00Z"},''
     @ ''{"tag_name":"gts-20260203","published_at":"2026-02-03T00:00:00Z"},''
     @ ''{"tag_name":"stable-20260203","published_at":"2026-02-03T00:00:00Z"},''
     @ ''{"tag_name":"beta-20260204","published_at":"2026-02-04T00:00:00Z","prerelease":true},''
     @ ''{"tag_name":"stable-20260205","published_at":"2026-02-05T00:00:00Z","draft":true}]''\<close>

definition bluefin_env :: Env where
  "bluefin_env = offline_env
     \<lparr>http_Do := (\<lambda>url. if url = ''https://api.github.com/repos/ublue-os/bluefin/releases?per_page=10''
                         then Inr \<lparr>StatusCode = 200, Body = Inr bluefin_body\<rparr>
                         else Inr \<lparr>StatusCode = 404, Body = Inr ''''\<rparr>),
      Unmarshal_GitHubReleases := (\<lambda>body. if body = bluefin_body then Inr bluefin_releases
                         else Inl (LibError ''unexpected end of JSON input'')),
      time_Format := (\<lambda>layout t. if t = 1769472000 then ''2026-01-27T00:00:00Z''
                                   else if t = 1770076800 then ''2026-02-03T00:00:00Z''
                                   else '''')\<rparr>"

text \<open>An entry of the Flathub feed, and a Brewfile of the curated list.\<close>

definition calculator :: FlathubApp where
  "calculator = \<lparr>fa_ID = ''org.gnome.Calculator'', fa_Name = ''Calculator'',
                  fa_Summary = ''Perform arithmetic, scientific or financial calculations'',
                  fa_DeveloperName = ''The GNOME Project'', fa_Icon = '''',
                  fa_ProjectLicense = ''GPL-3.0-or-later'', fa_Categories = [''Utility''],
                  fa_CurrentReleaseVersion = ''49.1'', fa_CurrentReleaseDate = ''2025-10-11''\<rparr>"

definition cli_Brewfile :: string where
  "cli_Brewfile = ''system_files/shared/usr/share/ublue-os/homebrew/cli.Brewfile''"

text \<open>
  The dataset with no package and empty metadata, and the document that the encoder
  (indent of two spaces, one final newline) makes of it. In \<open>full_disk_env\<close> the disk
  takes one more byte: \<open>Write\<close> returns 1 and the error. \<open>previous_files\<close> is a disk
  whose \<open>src/data/apps.json\<close> holds that document, from the run before.
\<close>

definition empty_output :: OutputData where
  "empty_output =
     \<lparr>out_Metadata =
        \<lparr>SchemaVersion = '''', GeneratedAt = '''', GeneratedBy = '''', BuildDuration = '''',
         Stats = \<lparr>AppsTotal = 0, AppsWithGitHubRepo = 0, AppsWithChangelogs = 0,
                   TotalReleases = 0\<rparr>,
         Performance = \<lparr>FlathubFetchDuration = '''', DetailsFetchDuration = '''',
                         GitHubFetchDuration = '''', OutputDuration = ''''\<rparr>\<rparr>,
      out_Apps = []\<rparr>"

definition empty_document :: string where
  \<open>empty_document =
     Join [''{'',
           ''  "metadata": {'',
           ''    "schemaVersion": "",'',
           ''    "generatedAt": "",'',
           ''    "generatedBy": "",'',
           ''    "buildDuration": "",'',
           ''    "stats": {'',
           ''      "appsTotal": 0,'',
           ''      "appsWithGitHubRepo": 0,'',
           ''      "appsWithChangelogs": 0,'',
           ''      "totalReleases": 0'',
           ''    },'',
           ''    "performance": {'',
           ''      "flathubFetchDuration": "",'',
           ''      "detailsFetchDuration": "",'',
           ''      "githubFetchDuration": "",'',
           ''      "outputDuration": ""'',
           ''    }'',
           ''  },'',
           ''  "apps": []'',
           ''}''] nl @ nl\<close>

definition full_disk_env :: Env where
  "full_disk_env = offline_env
     \<lparr>json_Marshal := (\<lambda>out. if out = empty_output then Inr empty_document
                              else Inl (LibError ''json: unsupported value'')),
      os_Write := (\<lambda>path doc. (1, Some (LibError ''no space left on device'')))\<rparr>"

definition apps_json :: string where
  "apps_json = ''src/data/apps.json''"

definition previous_files :: Files where
  "previous_files = (\<lambda>path. if path = apps_json then Some empty_document else None)"

text \<open>
  In \<open>feed_env body apps\<close> the Flathub feed answers with \<open>body\<close>, which decodes to
  \<open>apps\<close>, and every other request is answered 404. \<open>feed_entry\<close> is what an entry with
  only an \<open>id\<close> decodes to.
\<close>

definition feed_entry :: "string \<Rightarrow> FlathubApp" where
  "feed_entry appID = \<lparr>fa_ID = appID, fa_Name = '''', fa_Summary = '''', fa_DeveloperName = '''',
                        fa_Icon = '''', fa_ProjectLicense = '''', fa_Categories = [],
                        fa_CurrentReleaseVersion = '''', fa_CurrentReleaseDate = ''''\<rparr>"

definition feed_env :: "string \<Rightarrow> FlathubApp list \<Rightarrow> Env" where
  "feed_env body apps = offline_env
     \<lparr>http_Do := (\<lambda>url. if url = ''https://flathub.org/api/v2/feed/recently-updated''
                         then Inr \<lparr>StatusCode = 200, Body = Inr body\<rparr>
                         else Inr \<lparr>StatusCode = 404, Body = Inr ''''\<rparr>),
      Unmarshal_FlathubApps := (\<lambda>s. if s = body then Inr apps
                                      else Inl (LibError ''unexpected end of JSON input''))\<rparr>"

definition two_apps_env :: Env where
  \<open>two_apps_env =
     feed_env ''[{"id":"org.gnome.Calculator"},{"id":"org.gnome.Maps"}]''
       [feed_entry ''org.gnome.Calculator'', feed_entry ''org.gnome.Maps'']\<close>


text \<open>
  Details of an app whose map of URLs has neither \<open>homepage\<close> nor \<open>bugtracker\<close>, and of
  one whose map has a \<open>homepage\<close>.
\<close>

definition links_details :: FlathubAppDetails where
  "links_details =
     \<lparr>d_ID = ''org.example.App'', d_Name = ''App'', d_Summary = '''', d_Description = '''',
      d_URLs = Some [(''donation'', ''https://example.org/donate''),
                     (''help'', ''https://example.org/help'')],
      d_Releases = []\<rparr>"

definition homepage_details :: FlathubAppDetails where
  "homepage_details =
     \<lparr>d_ID = ''org.example.App'', d_Name = ''App'', d_Summary = '''', d_Description = '''',
      d_URLs = Some [(''donation'', ''https://example.org/donate''),
                     (''homepage'', ''https://example.org''),
                     (''help'', ''https://example.org/help'')],
      d_Releases = []\<rparr>"

text \<open>
  Flathub answers the details of \<open>org.gnome.Calculator\<close> with two releases of version
  49.1, dated 2025-10-11 and 2025-11-20 in this order; \<open>time.Parse\<close> reads the two dates
  as midnight UTC.
\<close>

definition appstream_env :: Env where
  \<open>appstream_env = offline_env
     \<lparr>http_Do := (\<lambda>url. if url = ''https://flathub.org/api/v2/appstream/org.gnome.Calculator''
                         then Inr \<lparr>StatusCode = 200, Body = Inr ''{"id":"org.gnome.Calculator","releases":[{"version":"49.1","date":"2025-10-11"},{"version":"49.1","date":"2025-11-20"}]}''\<rparr>
                         else Inr \<lparr>StatusCode = 404, Body = Inr ''''\<rparr>),
      Unmarshal_FlathubAppDetails :=
        (\<lambda>body. if body = ''{"id":"org.gnome.Calculator","releases":[{"version":"49.1","date":"2025-10-11"},{"version":"49.1","date":"2025-11-20"}]}''
                then Inr \<lparr>d_ID = ''org.gnome.Calculator'', d_Name = '''', d_Summary = '''',
                          d_Description = '''', d_URLs = None,
                          d_Releases = [\<lparr>fr_Version = ''49.1'', fr_Date = ''2025-10-11'',
                                         fr_Description = ''''\<rparr>,
                                        \<lparr>fr_Version = ''49.1'', fr_Date = ''2025-11-20'',
                                         fr_Description = ''''\<rparr>]\<rparr>
                else Inl (LibError ''unexpected end of JSON input'')),
      time_Parse := (\<lambda>layout v. if layout = ''2006-01-02'' \<and> v = ''2025-10-11''
                                  then Inr 1760140800
                                  else if layout = ''2006-01-02'' \<and> v = ''2025-11-20''
                                  then Inr 1763596800
                                  else Inl (LibError ''parsing time''))\<rparr>\<close>



section \<open>Notions of the statements and proofs\<close>

text \<open>
  \<open>answers env url code\<close>: in this run the request to \<open>url\<close> is sent and answered with
  the status \<open>code\<close>. The URLs are those that \<open>fetchRawFile\<close> builds for a file of the
  curated list, and that of the release request.
\<close>

definition answers :: "Env \<Rightarrow> string \<Rightarrow> int \<Rightarrow> bool" where
  "answers env url code \<longleftrightarrow>
     http_NewRequest env url = None \<and>
     (case http_Do env url of Inl err \<Rightarrow> False | Inr resp \<Rightarrow> StatusCode resp = code)"

definition raw_url :: "string \<Rightarrow> string" where
  "raw_url path = ''https://raw.githubusercontent.com/'' @ BluefinCommonOwner @ ''/''
                  @ BluefinCommonRepo @ ''/'' @ BluefinCommonBranch @ ''/'' @ path"

definition releases_url :: string where
  "releases_url = ''https://api.github.com/repos/'' @ BluefinOSOwner @ ''/'' @ BluefinOSRepo
                  @ ''/releases?per_page=10''"

text \<open>The URL that \<open>ExtractSourceRepo\<close> selects from a map.\<close>

definition selected_url :: "nat list \<Rightarrow> (string \<times> string) list \<Rightarrow> string" where
  "selected_url picks urls =
     (case map_of urls ''homepage'' of
        Some homepage \<Rightarrow> homepage
      | None \<Rightarrow>
          (case map_of urls ''bugtracker'' of
             Some bugtracker \<Rightarrow> bugtracker
           | None \<Rightarrow> (case range_map picks urls of [] \<Rightarrow> '''' | kv # rest \<Rightarrow> snd kv)))"

text \<open>
  The invariant of the first loop of \<open>FetchBluefinOSApps\<close>, after the releases \<open>ps\<close>:
  the keys of the map are the streams of the published releases seen, and each key holds
  a published release of its stream that no other is newer than.
\<close>

definition published :: "GitHubRelease \<Rightarrow> bool" where
  "published g \<longleftrightarrow> \<not> Draft g \<and> \<not> Prerelease g"

definition stream_of :: "Env \<Rightarrow> GitHubRelease \<Rightarrow> string" where
  "stream_of env g = Stream (parseOSInfo env g)"

definition streams :: "Env \<Rightarrow> GitHubRelease list \<Rightarrow> string set" where
  "streams env ps = stream_of env ` {g \<in> set ps. published g}"

definition latest_in :: "Env \<Rightarrow> GitHubRelease list \<Rightarrow> GitHubRelease \<Rightarrow> bool" where
  "latest_in env ps g \<longleftrightarrow>
     g \<in> set ps \<and> published g \<and>
     (\<forall>h\<in>set ps. published h \<and> stream_of env h = stream_of env g
        \<longrightarrow> PublishedAt h \<le> PublishedAt g)"

definition stream_inv :: "Env \<Rightarrow> (string \<times> GitHubRelease) list \<Rightarrow> GitHubRelease list \<Rightarrow> bool" where
  "stream_inv env m ps \<longleftrightarrow>
     distinct (map fst m) \<and> fst ` set m = streams env ps \<and>
     (\<forall>kv\<in>set m. fst kv = stream_of env (snd kv) \<and> latest_in env ps (snd kv))"

section \<open>Lemmas\<close>

subsection \<open>Orders of a run\<close>

lemma mset_remove_nth:
  assumes "i < length ys"
  shows "add_mset (ys ! i) (mset (take i ys @ drop (Suc i) ys)) = mset ys"
proof -
  have "mset ys = mset (take i ys @ ys ! i # drop (Suc i) ys)"
    using id_take_nth_drop [OF assms] by simp
  then show ?thesis by simp
qed

lemma pick_order_step:
  "xs \<noteq> [] \<Longrightarrow> pick_order (p # ps) xs =
     xs ! (p mod length xs) # pick_order ps (take (p mod length xs) xs @ drop (Suc (p mod length xs)) xs)"
  by (cases xs) (simp_all add: Let_def)

lemma pick_order_mset: "mset (pick_order ps xs) = mset xs"
proof (induction ps xs rule: pick_order.induct)
  case (3 p ps x xs)
  define ys where "ys = x # xs"
  define i where "i = p mod length ys"
  have i: "i < length ys" by (simp add: i_def ys_def)
  have IH: "mset (pick_order ps (take i ys @ drop (Suc i) ys)) = mset (take i ys @ drop (Suc i) ys)"
    using 3 by (simp add: i_def ys_def)
  have "pick_order (p # ps) ys = ys ! i # pick_order ps (take i ys @ drop (Suc i) ys)"
    by (simp add: ys_def i_def Let_def)
  then have "mset (pick_order (p # ps) ys) = add_mset (ys ! i) (mset (take i ys @ drop (Suc i) ys))"
    using IH by simp
  then show ?case using mset_remove_nth [OF i] by (simp add: ys_def)
qed simp_all

lemma pick_order_set: "set (pick_order ps xs) = set xs"
  using pick_order_mset [of ps xs] by (metis set_mset_mset)


lemma pick_order_distinct: "distinct (pick_order ps xs) = distinct xs"
  using pick_order_mset [of ps xs] by (metis mset_eq_imp_distinct_iff)

lemma pick_order_map: "pick_order ps (map f xs) = map f (pick_order ps xs)"
proof (induction ps xs rule: pick_order.induct)
  case (3 p ps x xs)
  define ys where "ys = x # xs"
  define i where "i = p mod length ys"
  have i: "i < length ys" by (simp add: i_def ys_def)
  have IH: "pick_order ps (map f (take i ys @ drop (Suc i) ys)) = map f (pick_order ps (take i ys @ drop (Suc i) ys))"
    using 3 by (simp add: i_def ys_def)
  have m: "map f ys \<noteq> []" by (simp add: ys_def)
  have "pick_order (p # ps) (map f ys)
        = map f ys ! i # pick_order ps (take i (map f ys) @ drop (Suc i) (map f ys))"
    using pick_order_step [OF m, of p ps] by (simp add: i_def)
  also have "\<dots> = f (ys ! i) # pick_order ps (map f (take i ys @ drop (Suc i) ys))"
    using i by (simp add: take_map drop_map)
  also have "\<dots> = map f (pick_order (p # ps) ys)"
    using IH by (simp add: ys_def i_def Let_def)
  finally show ?case by (simp add: ys_def)
qed simp_all

lemma entries_distinct_id: "distinct (map fst m) \<Longrightarrow> entries m = m"
proof (induction m)
  case (Cons kv m)
  from Cons.prems have "fst kv \<notin> fst ` set m" by simp
  then have "\<forall>x\<in>set m. fst x \<noteq> fst kv" by (metis imageI)
  then have "filter (\<lambda>x. fst x \<noteq> fst kv) m = m"
    by (simp add: filter_id_conv)
  with Cons show ?case by simp
qed simp

subsection \<open>Bluefin OS releases\<close>

lemma FetchBluefinReleases_loop_eq:
  "FetchBluefinReleases_loop env acc ghs =
     acc @ map (\<lambda>g. \<lparr>r_Version = TagName g, r_Date = PublishedAt g, r_Title = gh_Name g,
                       r_Description = markdown_ToHTML env (gh_Body g), r_URL = HTMLURL g,
                       r_Type = ''bluefin-os-release''\<rparr>)
                 (filter (\<lambda>g. \<not> Draft g \<and> \<not> Prerelease g) ghs)"
  by (induction ghs arbitrary: acc) (simp_all add: parseReleaseNotes_def)

lemma map_store_keys: "fst ` set (map_store m k v) = insert k (fst ` set m)"
  by (induction m) auto

lemma map_store_distinct: "distinct (map fst m) \<Longrightarrow> distinct (map fst (map_store m k v))"
proof (induction m)
  case (Cons kv m)
  show ?case
  proof (cases "fst kv = k")
    case True
    with Cons.prems show ?thesis by simp
  next
    case False
    from Cons.prems have "fst kv \<notin> fst ` set m" by simp
    with False have "fst kv \<notin> fst ` set (map_store m k v)"
      by (simp add: map_store_keys)
    moreover from Cons have "distinct (map fst (map_store m k v))" by simp
    ultimately show ?thesis using False by simp
  qed
qed simp

lemma map_store_mem:
  "distinct (map fst m) \<Longrightarrow> kv \<in> set (map_store m k v) \<Longrightarrow>
     kv = (k, v) \<or> (kv \<in> set m \<and> fst kv \<noteq> k)"
proof (induction m)
  case Nil
  then show ?case by simp
next
  case (Cons a m)
  show ?case
  proof (cases "fst a = k")
    case True
    with Cons.prems(2) have "kv = (k, v) \<or> kv \<in> set m" by simp
    moreover have "fst kv \<noteq> k" if "kv \<in> set m"
    proof
      assume "fst kv = k"
      with that True have "fst a \<in> fst ` set m" by (metis imageI)
      with Cons.prems(1) show False by simp
    qed
    ultimately show ?thesis by auto
  next
    case False
    with Cons.prems(2) have "kv = a \<or> kv \<in> set (map_store m k v)" by simp
    then show ?thesis
    proof
      assume "kv = a"
      with False show ?thesis by simp
    next
      assume "kv \<in> set (map_store m k v)"
      moreover from Cons.prems(1) have "distinct (map fst m)" by simp
      ultimately have "kv = (k, v) \<or> (kv \<in> set m \<and> fst kv \<noteq> k)" by (rule Cons.IH [rotated])
      then show ?thesis by auto
    qed
  qed
qed

lemma streams_snoc_skip: "\<not> published x \<Longrightarrow> streams env (ps @ [x]) = streams env ps"
  unfolding streams_def by (rule arg_cong [where f = "(`) (stream_of env)"]) auto

lemma streams_snoc: "published x \<Longrightarrow> streams env (ps @ [x]) = insert (stream_of env x) (streams env ps)"
proof -
  assume "published x"
  then have "{g \<in> set (ps @ [x]). published g} = insert x {g \<in> set ps. published g}" by auto
  then show ?thesis by (simp add: streams_def)
qed

lemma latest_in_snoc:
  assumes "latest_in env ps g"
    and "published x \<Longrightarrow> stream_of env x = stream_of env g \<Longrightarrow> PublishedAt x \<le> PublishedAt g"
  shows "latest_in env (ps @ [x]) g"
  using assms unfolding latest_in_def by auto

lemma latest_in_new:
  assumes "published x"
    and "\<And>h. h \<in> set ps \<Longrightarrow> published h \<Longrightarrow> stream_of env h = stream_of env x
           \<Longrightarrow> PublishedAt h \<le> PublishedAt x"
  shows "latest_in env (ps @ [x]) x"
  using assms unfolding latest_in_def by auto

lemma stream_inv_distinct: "stream_inv env m ps \<Longrightarrow> distinct (map fst m)"
  unfolding stream_inv_def by (elim conjE)

lemma stream_inv_keys: "stream_inv env m ps \<Longrightarrow> fst ` set m = streams env ps"
  unfolding stream_inv_def by (elim conjE)

lemma stream_inv_mem:
  "stream_inv env m ps \<Longrightarrow> kv \<in> set m \<Longrightarrow> fst kv = stream_of env (snd kv) \<and> latest_in env ps (snd kv)"
  unfolding stream_inv_def by blast

lemma stream_inv_skip:
  assumes inv: "stream_inv env m ps" and "\<not> published x"
  shows "stream_inv env m (ps @ [x])"
  unfolding stream_inv_def
proof (intro conjI ballI)
  show "distinct (map fst m)" using inv by (rule stream_inv_distinct)
  show "fst ` set m = streams env (ps @ [x])"
    using stream_inv_keys [OF inv] assms(2) by (simp add: streams_snoc_skip)
next
  fix kv assume kv: "kv \<in> set m"
  from stream_inv_mem [OF inv kv] show "fst kv = stream_of env (snd kv)" by simp
  from stream_inv_mem [OF inv kv] have "latest_in env ps (snd kv)" by simp
  then show "latest_in env (ps @ [x]) (snd kv)"
  proof (rule latest_in_snoc)
    assume "published x"
    with assms(2) show "PublishedAt x \<le> PublishedAt (snd kv)" by simp
  qed
qed

lemma stream_inv_store:
  assumes inv: "stream_inv env m ps" and pub: "published x"
    and best: "\<And>h. h \<in> set ps \<Longrightarrow> published h \<Longrightarrow> stream_of env h = stream_of env x
           \<Longrightarrow> PublishedAt h \<le> PublishedAt x"
  shows "stream_inv env (map_store m (stream_of env x) x) (ps @ [x])"
  unfolding stream_inv_def
proof (intro conjI ballI)
  have d: "distinct (map fst m)" using inv by (rule stream_inv_distinct)
  show "distinct (map fst (map_store m (stream_of env x) x))"
    using d by (rule map_store_distinct)
  show "fst ` set (map_store m (stream_of env x) x) = streams env (ps @ [x])"
    using stream_inv_keys [OF inv] pub by (simp add: streams_snoc map_store_keys)
  fix kv assume "kv \<in> set (map_store m (stream_of env x) x)"
  with d have "kv = (stream_of env x, x) \<or> (kv \<in> set m \<and> fst kv \<noteq> stream_of env x)"
    by (rule map_store_mem)
  then have "fst kv = stream_of env (snd kv) \<and> latest_in env (ps @ [x]) (snd kv)"
  proof
    assume "kv = (stream_of env x, x)"
    moreover have "latest_in env (ps @ [x]) x" using pub best by (rule latest_in_new)
    ultimately show ?thesis by simp
  next
    assume a: "kv \<in> set m \<and> fst kv \<noteq> stream_of env x"
    then have kv: "kv \<in> set m" and ne: "fst kv \<noteq> stream_of env x" by simp_all
    from stream_inv_mem [OF inv kv] have k: "fst kv = stream_of env (snd kv)"
      and l: "latest_in env ps (snd kv)" by simp_all
    from ne k have "stream_of env x \<noteq> stream_of env (snd kv)" by simp
    have "latest_in env (ps @ [x]) (snd kv)"
      using l
    proof (rule latest_in_snoc)
      assume "stream_of env x = stream_of env (snd kv)"
      with \<open>stream_of env x \<noteq> stream_of env (snd kv)\<close>
      show "PublishedAt x \<le> PublishedAt (snd kv)" by simp
    qed
    with k show ?thesis by simp
  qed
  then show "fst kv = stream_of env (snd kv)" and "latest_in env (ps @ [x]) (snd kv)"
    by simp_all
qed

lemma stream_inv_new:
  assumes inv: "stream_inv env m ps" and pub: "published x"
    and none: "map_of m (stream_of env x) = None"
  shows "stream_inv env (map_store m (stream_of env x) x) (ps @ [x])"
  using inv pub
proof (rule stream_inv_store)
  fix h assume h: "h \<in> set ps" "published h" "stream_of env h = stream_of env x"
  then have "stream_of env x \<in> streams env ps"
    unfolding streams_def by (metis (mono_tags, lifting) imageI mem_Collect_eq)
  then have "stream_of env x \<in> fst ` set m" by (simp add: stream_inv_keys [OF inv])
  with none have False by (simp add: map_of_eq_None_iff)
  then show "PublishedAt h \<le> PublishedAt x" ..
qed

lemma stream_inv_existing:
  assumes inv: "stream_inv env m ps" and some: "map_of m (stream_of env x) = Some existing"
  shows "latest_in env ps existing \<and> stream_of env existing = stream_of env x"
proof -
  from some have "(stream_of env x, existing) \<in> set m" by (rule map_of_SomeD)
  from stream_inv_mem [OF inv this] show ?thesis by simp
qed

lemma stream_inv_update:
  assumes inv: "stream_inv env m ps" and pub: "published x"
    and some: "map_of m (stream_of env x) = Some existing"
    and newer: "PublishedAt existing < PublishedAt x"
  shows "stream_inv env (map_store m (stream_of env x) x) (ps @ [x])"
  using inv pub
proof (rule stream_inv_store)
  fix h assume h: "h \<in> set ps" "published h" "stream_of env h = stream_of env x"
  from stream_inv_existing [OF inv some] have l: "latest_in env ps existing"
    and e: "stream_of env existing = stream_of env x" by simp_all
  from l h e have "PublishedAt h \<le> PublishedAt existing"
    unfolding latest_in_def by simp
  with newer show "PublishedAt h \<le> PublishedAt x" by simp
qed

lemma stream_inv_keep:
  assumes inv: "stream_inv env m ps" and pub: "published x"
    and some: "map_of m (stream_of env x) = Some existing"
    and older: "\<not> PublishedAt existing < PublishedAt x"
  shows "stream_inv env m (ps @ [x])"
  unfolding stream_inv_def
proof (intro conjI ballI)
  have d: "distinct (map fst m)" using inv by (rule stream_inv_distinct)
  then show "distinct (map fst m)" .
  from some have mem: "(stream_of env x, existing) \<in> set m" by (rule map_of_SomeD)
  then have "stream_of env x \<in> fst ` set m" by (metis fst_conv imageI)
  then have "insert (stream_of env x) (fst ` set m) = fst ` set m" by (rule insert_absorb)
  then show "fst ` set m = streams env (ps @ [x])"
    using stream_inv_keys [OF inv] pub by (simp add: streams_snoc)
  fix kv assume kv: "kv \<in> set m"
  from stream_inv_mem [OF inv kv] have k: "fst kv = stream_of env (snd kv)"
    and l: "latest_in env ps (snd kv)" by simp_all
  show "fst kv = stream_of env (snd kv)" by (rule k)
  show "latest_in env (ps @ [x]) (snd kv)"
    using l
  proof (rule latest_in_snoc)
    assume same: "stream_of env x = stream_of env (snd kv)"
    from d have "inj_on fst (set m)" by (simp add: distinct_map)
    from inj_onD [OF this _ kv mem] k same have "kv = (stream_of env x, existing)" by simp
    then have "snd kv = existing" by simp
    with older show "PublishedAt x \<le> PublishedAt (snd kv)" by simp
  qed
qed

lemma latestByStream_loop_step:
  "latestByStream_loop env m (x # xs) =
     (if \<not> published x then latestByStream_loop env m xs
      else case map_of m (stream_of env x) of
             None \<Rightarrow> latestByStream_loop env (map_store m (stream_of env x) x) xs
           | Some existing \<Rightarrow>
               if PublishedAt existing < PublishedAt x
               then latestByStream_loop env (map_store m (stream_of env x) x) xs
               else latestByStream_loop env m xs)"
  by (simp add: published_def stream_of_def Let_def After_def split: option.split)

lemma latestByStream_loop_inv:
  "stream_inv env m ps \<Longrightarrow> stream_inv env (latestByStream_loop env m xs) (ps @ xs)"
proof (induction xs arbitrary: m ps)
  case Nil
  then show ?case by simp
next
  case (Cons x xs)
  have app: "ps @ x # xs = (ps @ [x]) @ xs" by simp
  show ?case
  proof (cases "published x")
    case False
    from Cons.IH [OF stream_inv_skip [OF Cons.prems False]] False
    show ?thesis unfolding app latestByStream_loop_step by simp
  next
    case pub: True
    show ?thesis
    proof (cases "map_of m (stream_of env x)")
      case None
      from Cons.IH [OF stream_inv_new [OF Cons.prems pub None]] pub None
      show ?thesis unfolding app latestByStream_loop_step by simp
    next
      case (Some existing)
      show ?thesis
      proof (cases "PublishedAt existing < PublishedAt x")
        case True
        from Cons.IH [OF stream_inv_update [OF Cons.prems pub Some True]] pub Some True
        show ?thesis unfolding app latestByStream_loop_step by simp
      next
        case older: False
        from Cons.IH [OF stream_inv_keep [OF Cons.prems pub Some older]] pub Some older
        show ?thesis unfolding app latestByStream_loop_step by simp
      qed
    qed
  qed
qed

lemma latestByStream_inv: "stream_inv env (latestByStream_loop env [] ghs) ghs"
proof -
  have "stream_inv env [] []" by (simp add: stream_inv_def streams_def)
  from latestByStream_loop_inv [OF this, of ghs] show ?thesis by simp
qed

lemma bluefin_os_app_ID: "ID (bluefin_os_app env g) = ''bluefin-os-'' @ Stream (parseOSInfo env g)"
  by (simp add: bluefin_os_app_def Let_def)

lemma bluefin_os_app_Releases:
  "map r_Description (Releases (bluefin_os_app env g)) = [markdown_ToHTML env (gh_Body g)]"
  by (simp add: bluefin_os_app_def Let_def parseReleaseNotes_def)

lemma bluefin_env_request: "github_releases_request bluefin_env = Inr bluefin_releases"
  by (simp add: github_releases_request_def bluefin_env_def offline_env_def
      BluefinOSOwner_def BluefinOSRepo_def StatusForbidden_def StatusOK_def)

lemma stream_inv_fst_map:
  assumes "stream_inv env m ps"
  shows "map (\<lambda>kv. Stream (parseOSInfo env (snd kv))) m = map fst m"
proof (rule map_cong [OF refl])
  fix kv assume "kv \<in> set m"
  from stream_inv_mem [OF assms this] show "Stream (parseOSInfo env (snd kv)) = fst kv"
    by (simp add: stream_of_def)
qed

lemma bluefin_env_apps:
  "map Version (case FetchBluefinOSApps bluefin_env [1] of Inr apps \<Rightarrow> apps | Inl e \<Rightarrow> [])
     = [''gts-20260203'', ''stable-20260203'']"
  by (simp add: FetchBluefinOSApps_def bluefin_env_request bluefin_releases_def gh_def
      parseOSInfo_def Let_def range_map_def After_def bluefin_os_app_def comp_def)

subsection \<open>Status codes\<close>

lemma answers_Get:
  "answers env url code \<Longrightarrow> \<exists>resp. http_Get env url = Inr resp \<and> StatusCode resp = code"
  by (auto simp: answers_def http_Get_def split: sum.splits)

lemma answers_Do:
  "answers env url code \<Longrightarrow>
     http_NewRequest env url = None \<and> (\<exists>resp. http_Do env url = Inr resp \<and> StatusCode resp = code)"
  by (auto simp: answers_def split: sum.splits)

lemma FetchAppDetails_status:
  assumes "answers env (FlathubAPIBase @ ''/appstream/'' @ appID) code" and "code \<noteq> StatusOK"
  shows "FetchAppDetails env appID =
           (if code = StatusNotFound then Inr None else Inl (UnexpectedStatusCode code))"
  using answers_Get [OF assms(1)] assms(2) by (auto simp: FetchAppDetails_def)

lemma fetchRawFile_status:
  assumes "answers env (raw_url path) code" and "code \<noteq> StatusOK"
  shows "fetchRawFile env BluefinCommonOwner BluefinCommonRepo BluefinCommonBranch path =
           (if code = StatusNotFound then Inl (FileNotFound path)
            else if code = StatusForbidden then Inl RateLimitExceeded
            else Inl (UnexpectedStatusCode code))"
  using answers_Do [OF assms(1)] assms(2) by (auto simp: fetchRawFile_def raw_url_def Let_def)

lemma status_codes_distinct:
  "StatusNotFound \<noteq> StatusOK" "StatusForbidden \<noteq> StatusOK" "StatusForbidden \<noteq> StatusNotFound"
  by (simp_all add: StatusOK_def StatusForbidden_def StatusNotFound_def)

lemma status_env_answers: "answers (status_env code) url code"
  by (simp add: answers_def status_env_def offline_env_def)

lemma enrichApp_no_details:
  assumes "FetchAppDetails env (fa_ID fa) = Inr None"
  shows "ID (enrichApp env picks fa) = fa_ID fa \<and> Description (enrichApp env picks fa) = '''' \<and>
         Releases (enrichApp env picks fa) = [] \<and> SourceRepo (enrichApp env picks fa) = None"
  using assms by (simp add: enrichApp_def Let_def)

lemma fetchHomebrewPackageMetadata_404:
  assumes "answers env (''https://formulae.brew.sh/api/formula/'' @ name @ ''.json'') StatusNotFound"
  shows "fetchHomebrewPackageMetadata env name = Inr (Some (createMinimalHomebrewApp env name))"
  using answers_Do [OF assms] by (auto simp: fetchHomebrewPackageMetadata_def Let_def)

lemma loops_skip_failed_file:
  assumes "fetchRawFile env BluefinCommonOwner BluefinCommonRepo BluefinCommonBranch path = Inl err"
  shows "FetchHomebrewList_loop env allPackages (path # rest) =
           FetchHomebrewList_loop env allPackages rest \<and>
         FetchFlatpakList_loop env infos ((path, appSet) # brewfiles) =
           FetchFlatpakList_loop env infos brewfiles"
  using assms by simp

lemma github_releases_request_status:
  assumes "answers env releases_url code" and "code \<noteq> StatusOK"
  shows "github_releases_request env =
           (if code = StatusForbidden then Inl RateLimitExceeded
            else Inl (UnexpectedStatusCode code))"
  using answers_Do [OF assms(1)] assms(2)
  by (auto simp: github_releases_request_def releases_url_def Let_def)

lemma FetchAppDetails_never_rate_limit: "FetchAppDetails env appID \<noteq> Inl RateLimitExceeded"
  by (simp add: FetchAppDetails_def split: sum.split)

lemma fetchRawFile_OK_never_rate_limit:
  assumes "answers env (raw_url path) StatusOK"
  shows "fetchRawFile env BluefinCommonOwner BluefinCommonRepo BluefinCommonBranch path
         \<noteq> Inl RateLimitExceeded"
  using answers_Do [OF assms]
  by (auto simp: fetchRawFile_def raw_url_def Let_def StatusOK_def StatusNotFound_def
      StatusForbidden_def split: sum.split)

lemma github_releases_request_OK_never_rate_limit:
  assumes "answers env releases_url StatusOK"
  shows "github_releases_request env \<noteq> Inl RateLimitExceeded"
  using answers_Do [OF assms]
  by (auto simp: github_releases_request_def releases_url_def Let_def StatusOK_def
      StatusForbidden_def split: sum.split)

subsection \<open>Discovery\<close>



lemma FetchAllApps_cases:
  "(case FetchRecentlyUpdated env of
      Inl err \<Rightarrow> FetchAllApps env sched picks = Fatal ''Failed to fetch apps'' err
    | Inr flathubApps \<Rightarrow>
        FetchAllApps env sched picks =
          Returns \<lparr>Apps = pick_order sched
                             (map (\<lambda>(i, fa). enrichApp env (picks i) fa)
                                  (enumerate 0 (take 50 flathubApps)))\<rparr>)"
  by (simp add: FetchAllApps_def Let_def split: sum.split)

subsection \<open>Writing the dataset\<close>

lemma full_disk_run:
  "WriteJSON full_disk_env empty_output apps_json previous_files =
     (Some (Wrap ''encode JSON'' (LibError ''no space left on device'')),
      previous_files(apps_json \<mapsto> ''{''))"
  by (simp add: WriteJSON_def full_disk_env_def offline_env_def Let_def empty_document_def)

subsection \<open>Flathub apps and source repositories\<close>

lemma enrichApp_ID: "ID (enrichApp env picks fa) = fa_ID fa"
  by (simp add: enrichApp_def Let_def split: sum.split option.split)

lemma pick_order_short: "length xs \<le> 1 \<Longrightarrow> pick_order ps xs = xs"
proof (cases xs)
  case Nil
  then show ?thesis by simp
next
  case (Cons x ys)
  assume "length xs \<le> 1"
  with Cons have "ys = []" by simp
  with Cons show ?thesis by (cases ps) (simp_all add: Let_def)
qed

lemma entries_subset: "set (entries m) \<subseteq> set m"
proof (induction m rule: entries.induct)
  case 1
  show ?case by simp
next
  case (2 kv kvs)
  then show ?case by auto
qed

lemma two_apps_run:
  "FetchAllApps two_apps_env sched (\<lambda>i. []) =
     Returns \<lparr>Apps = pick_order sched
                        [enrichApp two_apps_env [] (feed_entry ''org.gnome.Calculator''),
                         enrichApp two_apps_env [] (feed_entry ''org.gnome.Maps'')]\<rparr>"
  by (simp add: FetchAllApps_def FetchRecentlyUpdated_def http_Get_def two_apps_env_def
      feed_env_def offline_env_def FlathubAPIBase_def StatusOK_def Let_def)

lemma ExtractSourceRepo_None: "d_URLs d = None \<Longrightarrow> ExtractSourceRepo env picks (Some d) = None"
  by (simp add: ExtractSourceRepo_def)

lemma extractGitHubRepo_URL: "sr_URL (extractGitHubRepo env url) = url"
  by (simp add: extractGitHubRepo_def Let_def)

lemma ExtractSourceRepo_selected:
  "d_URLs d = Some urls \<Longrightarrow>
   ExtractSourceRepo env picks (Some d) =
     (let repoURL = selected_url picks urls
      in if repoURL = '''' then None
         else if Contains repoURL ''github.com'' then Some (extractGitHubRepo env repoURL)
         else if Contains repoURL ''gitlab.com''
         then Some \<lparr>sr_Type = ''gitlab'', sr_URL = repoURL, sr_Owner = '''', sr_Repo = ''''\<rparr>
         else Some \<lparr>sr_Type = ''other'', sr_URL = repoURL, sr_Owner = '''', sr_Repo = ''''\<rparr>)"
  by (simp add: ExtractSourceRepo_def selected_url_def)

lemma selected_url_fixed:
  assumes "map_of urls ''homepage'' \<noteq> None \<or> map_of urls ''bugtracker'' \<noteq> None
           \<or> length (entries urls) \<le> 1"
  shows "selected_url picks1 urls = selected_url picks2 urls"
proof (cases "length (entries urls) \<le> 1")
  case True
  then have "range_map picks1 urls = range_map picks2 urls"
    by (simp add: range_map_def pick_order_short)
  then show ?thesis by (simp add: selected_url_def split: option.split)
next
  case False
  with assms show ?thesis by (auto simp: selected_url_def split: option.splits)
qed

lemma selected_url_in_map:
  assumes "selected_url picks urls \<noteq> ''''"
  shows "selected_url picks urls \<in> snd ` set urls"
proof (cases "map_of urls ''homepage''")
  case (Some h)
  from map_of_SomeD [OF Some] have "h \<in> snd ` set urls" by (metis imageI snd_conv)
  with Some show ?thesis by (simp add: selected_url_def)
next
  case None
  show ?thesis
  proof (cases "map_of urls ''bugtracker''")
    case (Some b)
    from map_of_SomeD [OF Some] have "b \<in> snd ` set urls" by (metis imageI snd_conv)
    with None Some show ?thesis by (simp add: selected_url_def)
  next
    case nb: None
    show ?thesis
    proof (cases "range_map picks urls")
      case Nil
      with None nb assms show ?thesis by (simp add: selected_url_def)
    next
      case (Cons kv rest)
      then have "kv \<in> set (pick_order picks (entries urls))" by (simp add: range_map_def)
      then have "kv \<in> set urls" using entries_subset [of urls] by (auto simp: pick_order_set)
      then have "snd kv \<in> snd ` set urls" by (rule imageI)
      with None nb Cons show ?thesis by (simp add: selected_url_def)
    qed
  qed
qed

lemma ExtractSourceRepo_URL:
  assumes "d_URLs d = Some urls" and "ExtractSourceRepo env picks (Some d) = Some sr"
  shows "sr_URL sr = selected_url picks urls \<and> selected_url picks urls \<noteq> ''''"
  using assms(2) unfolding ExtractSourceRepo_selected [OF assms(1)] Let_def
  by (auto simp: extractGitHubRepo_URL split: if_splits)

lemma two_apps_ids:
  "(case FetchAllApps two_apps_env sched (\<lambda>i. []) of
      Fatal msg err \<Rightarrow> []
    | Returns results \<Rightarrow> map ID (Apps results))
   = pick_order sched [''org.gnome.Calculator'', ''org.gnome.Maps'']"
proof -
  have "map ID (pick_order sched
                  [enrichApp two_apps_env [] (feed_entry ''org.gnome.Calculator''),
                   enrichApp two_apps_env [] (feed_entry ''org.gnome.Maps'')])
        = pick_order sched [''org.gnome.Calculator'', ''org.gnome.Maps'']"
    by (simp add: pick_order_map [symmetric] enrichApp_ID feed_entry_def)
  then show ?thesis by (simp add: two_apps_run)
qed

subsection \<open>Identifiers\<close>






subsection \<open>Release lists\<close>

lemma ConvertFlathubReleases_loop_map:
  "ConvertFlathubReleases_loop env result releases =
     result @ map (\<lambda>release.
                     \<lparr>r_Version = fr_Version release,
                      r_Date = (case time_Parse env ''2006-01-02'' (fr_Date release) of
                                  Inr d \<Rightarrow> d
                                | Inl err \<Rightarrow>
                                    (case time_Parse env RFC3339 (fr_Date release) of
                                       Inr d \<Rightarrow> d
                                     | Inl err \<Rightarrow> time_Now env)),
                      r_Title = ''Version '' @ fr_Version release,
                      r_Description = fr_Description release, r_URL = '''',
                      r_Type = ''appstream''\<rparr>) releases"
  by (induction releases arbitrary: result) (simp_all add: Let_def)

lemma EnrichWithMozillaReleases_loop_map:
  "i + n = length apps \<Longrightarrow>
   EnrichWithMozillaReleases_loop env i n apps
     = take i apps @ map (enrich_mozilla env) (drop i apps)"
proof (induction n arbitrary: i apps)
  case 0
  then show ?case by simp
next
  case (Suc n)
  let ?apps = "apps[i := enrich_mozilla env (apps ! i)]"
  from Suc.prems have i: "i < length apps" by simp
  from Suc.prems have "Suc i + n = length ?apps" by simp
  from Suc.IH [OF this]
  have "EnrichWithMozillaReleases_loop env (Suc i) n ?apps
        = take (Suc i) ?apps @ map (enrich_mozilla env) (drop (Suc i) ?apps)" .
  also have "take (Suc i) ?apps = take i apps @ [enrich_mozilla env (apps ! i)]"
    using i by (simp add: take_Suc_conv_app_nth)
  also have "drop (Suc i) ?apps = drop (Suc i) apps" by simp
  finally have "EnrichWithMozillaReleases_loop env (Suc i) n ?apps
        = take i apps @ map (enrich_mozilla env) (apps ! i # drop (Suc i) apps)"
    by simp
  then show ?case using i by (simp add: Cons_nth_drop_Suc)
qed

lemma EnrichWithMozillaReleases_map:
  "EnrichWithMozillaReleases env apps = map (enrich_mozilla env) apps"
  by (simp add: EnrichWithMozillaReleases_def EnrichWithMozillaReleases_loop_map)

lemma fetch_mozilla_releases_single:
  "fetch_mozilla_releases env versionsURL versionKey notesBase product extract = Inr releases
   \<Longrightarrow> length releases = 1 \<and> map r_Type releases = [''mozilla-release'']"
  by (auto simp: fetch_mozilla_releases_def Let_def split: sum.splits if_splits)

lemma enrichApp_Releases:
  "Releases (enrichApp env picks fa) =
     (case FetchAppDetails env (fa_ID fa) of
        Inl err \<Rightarrow> []
      | Inr None \<Rightarrow> []
      | Inr (Some details) \<Rightarrow> ConvertFlathubReleases env (d_Releases details))"
  by (simp add: enrichApp_def Let_def ConvertFlathubReleases_def
      split: sum.split option.split)

lemma enrich_mozilla_Releases:
  "Releases (enrich_mozilla env app) =
     (if ID app = ''org.mozilla.firefox''
      then (case fetchFirefoxReleases env of
              Inr releases \<Rightarrow> releases
            | Inl err \<Rightarrow> Releases app)
      else if ID app = ''org.mozilla.Thunderbird''
      then (case fetchThunderbirdReleases env of
              Inr releases \<Rightarrow> releases
            | Inl err \<Rightarrow> Releases app)
      else Releases app)"
  by (simp add: enrich_mozilla_def split: sum.split)


section \<open>The claims\<close>

text \<open>
  C1, as the code has it. \<open>WriteJSON\<close> is not atomic. When it returns an error, the
  destination is unchanged only if \<open>os.Create\<close> failed. Otherwise the destination was
  created or truncated before the encoding began: it is empty when marshalling failed,
  and holds the prefix of the document that \<open>Write\<close> got through when the write failed.
  No other path changes.
\<close>

theorem WriteJSON_failure_effect:
  assumes "WriteJSON env out path files = (Some err, files')"
  shows "(os_Create env path \<noteq> None \<longrightarrow> files' = files) \<and>
         (os_Create env path = None \<longrightarrow>
            (\<forall>p. p \<noteq> path \<longrightarrow> files' p = files p) \<and>
            (case json_Marshal env out of
               Inl e \<Rightarrow> files' path = Some []
             | Inr doc \<Rightarrow> files' path = Some (take (fst (os_Write env path doc)) doc)))"
proof (cases "os_Create env path")
  case (Some e)
  with assms show ?thesis by (simp add: WriteJSON_def)
next
  case None
  show ?thesis
  proof (cases "json_Marshal env out")
    case (Inl e)
    with None assms show ?thesis by (auto simp: WriteJSON_def Let_def)
  next
    case (Inr doc)
    obtain n w where w: "os_Write env path doc = (n, w)" by (cases "os_Write env path doc")
    with None Inr assms show ?thesis
      by (cases w) (auto simp: WriteJSON_def Let_def)
  qed
qed

theorem WriteJSON_failure_effect_witness:
  "WriteJSON full_disk_env empty_output apps_json previous_files =
     (Some (Wrap ''encode JSON'' (LibError ''no space left on device'')),
      previous_files(apps_json \<mapsto> ''{'')) \<and>
   os_Create full_disk_env apps_json = None \<and>
   (previous_files(apps_json \<mapsto> ''{'')) apps_json =
     Some (take (fst (os_Write full_disk_env apps_json empty_document)) empty_document)"
proof -
  have c: "os_Create full_disk_env apps_json = None"
    by (simp add: full_disk_env_def offline_env_def)
  have m: "json_Marshal full_disk_env empty_output = Inr empty_document"
    by (simp add: full_disk_env_def offline_env_def)
  from WriteJSON_failure_effect [OF full_disk_run] c m
  have "(previous_files(apps_json \<mapsto> ''{'')) apps_json =
     Some (take (fst (os_Write full_disk_env apps_json empty_document)) empty_document)"
    by simp
  with full_disk_run c show ?thesis by (intro conjI)
qed

text \<open>
  C1 as stated fails: the disk fills after one byte, \<open>WriteJSON\<close> returns an error, and
  the destination, which held the document of the previous run, now holds \<open>{\<close>.
\<close>

theorem WriteJSON_not_atomic_counterexample:
  "fst (WriteJSON full_disk_env empty_output ''src/data/apps.json'' previous_files)
     = Some (Wrap ''encode JSON'' (LibError ''no space left on device'')) \<and>
   previous_files ''src/data/apps.json'' = Some empty_document \<and>
   snd (WriteJSON full_disk_env empty_output ''src/data/apps.json'' previous_files)
     ''src/data/apps.json'' = Some ''{'' \<and>
   empty_document \<noteq> ''{''"
  using full_disk_run
  by (simp add: apps_json_def previous_files_def empty_document_def nl_def)

text \<open>
  C2, as the code has it. Two runs against the same upstream responses and clock, with
  the same map orders, return the same Apps as a multiset (or end with the same fatal
  error): the order of the list is the order in which the goroutines finish.
  \<open>ExtractSourceRepo\<close> does not depend on the map order when the map of URLs has a
  \<open>homepage\<close> or a \<open>bugtracker\<close> key, or at most one entry; in every case the repository
  it returns carries one of the URLs of the map.
\<close>

theorem runs_agree_up_to_order:
  "(case FetchAllApps env sched picks of
      Fatal msg err \<Rightarrow> FetchAllApps env sched' picks = Fatal msg err
    | Returns results \<Rightarrow>
        (case FetchAllApps env sched' picks of
           Fatal msg err \<Rightarrow> False
         | Returns results' \<Rightarrow> mset (Apps results) = mset (Apps results'))) \<and>
   (d_URLs d = Some urls \<and>
    (map_of urls ''homepage'' \<noteq> None \<or> map_of urls ''bugtracker'' \<noteq> None
     \<or> length (entries urls) \<le> 1) \<longrightarrow>
      ExtractSourceRepo env order (Some d) = ExtractSourceRepo env order' (Some d)) \<and>
   (d_URLs d = Some urls \<and> ExtractSourceRepo env order (Some d) = Some sr \<longrightarrow>
      sr_URL sr \<in> snd ` set urls)"
proof (intro conjI impI)
  show "case FetchAllApps env sched picks of
      Fatal msg err \<Rightarrow> FetchAllApps env sched' picks = Fatal msg err
    | Returns results \<Rightarrow>
        (case FetchAllApps env sched' picks of
           Fatal msg err \<Rightarrow> False
         | Returns results' \<Rightarrow> mset (Apps results) = mset (Apps results'))"
    using FetchAllApps_cases [of env sched picks] FetchAllApps_cases [of env sched' picks]
    by (simp add: pick_order_mset split: sum.splits)
next
  assume a: "d_URLs d = Some urls \<and>
    (map_of urls ''homepage'' \<noteq> None \<or> map_of urls ''bugtracker'' \<noteq> None
     \<or> length (entries urls) \<le> 1)"
  then have u: "d_URLs d = Some urls" by simp
  from a have "selected_url order urls = selected_url order' urls"
    by (intro selected_url_fixed) simp
  then show "ExtractSourceRepo env order (Some d) = ExtractSourceRepo env order' (Some d)"
    by (simp only: ExtractSourceRepo_selected [OF u])
next
  assume a: "d_URLs d = Some urls \<and> ExtractSourceRepo env order (Some d) = Some sr"
  then have u: "d_URLs d = Some urls" and e: "ExtractSourceRepo env order (Some d) = Some sr"
    by simp_all
  from ExtractSourceRepo_URL [OF u e] selected_url_in_map [of order urls]
  show "sr_URL sr \<in> snd ` set urls" by simp
qed

theorem runs_agree_up_to_order_witness:
  "d_URLs homepage_details = Some [(''donation'', ''https://example.org/donate''),
                                   (''homepage'', ''https://example.org''),
                                   (''help'', ''https://example.org/help'')] \<and>
   map_of [(''donation'', ''https://example.org/donate''),
           (''homepage'', ''https://example.org''),
           (''help'', ''https://example.org/help'')] ''homepage'' \<noteq> None \<and>
   ExtractSourceRepo two_apps_env [0] (Some homepage_details)
     = ExtractSourceRepo two_apps_env [1] (Some homepage_details) \<and>
   (case FetchAllApps two_apps_env [0] (\<lambda>i. []) of
      Fatal msg err \<Rightarrow> FetchAllApps two_apps_env [1] (\<lambda>i. []) = Fatal msg err
    | Returns results \<Rightarrow>
        (case FetchAllApps two_apps_env [1] (\<lambda>i. []) of
           Fatal msg err \<Rightarrow> False
         | Returns results' \<Rightarrow> mset (Apps results) = mset (Apps results')))"
proof -
  have u: "d_URLs homepage_details = Some [(''donation'', ''https://example.org/donate''),
                                   (''homepage'', ''https://example.org''),
                                   (''help'', ''https://example.org/help'')]"
    by (simp add: homepage_details_def)
  have h: "map_of [(''donation'', ''https://example.org/donate''),
           (''homepage'', ''https://example.org''),
           (''help'', ''https://example.org/help'')] ''homepage'' \<noteq> None"
    by simp
  note t = runs_agree_up_to_order [where env = two_apps_env and sched = "[0]"
      and sched' = "[1]" and picks = "\<lambda>i. []" and d = homepage_details
      and urls = "[(''donation'', ''https://example.org/donate''),
                   (''homepage'', ''https://example.org''),
                   (''help'', ''https://example.org/help'')]"
      and order = "[0]" and order' = "[1]"]
  from t u h have e: "ExtractSourceRepo two_apps_env [0] (Some homepage_details)
     = ExtractSourceRepo two_apps_env [1] (Some homepage_details)"
    by blast
  from t have r: "case FetchAllApps two_apps_env [0] (\<lambda>i. []) of
      Fatal msg err \<Rightarrow> FetchAllApps two_apps_env [1] (\<lambda>i. []) = Fatal msg err
    | Returns results \<Rightarrow>
        (case FetchAllApps two_apps_env [1] (\<lambda>i. []) of
           Fatal msg err \<Rightarrow> False
         | Returns results' \<Rightarrow> mset (Apps results) = mset (Apps results'))"
    by (rule conjunct1)
  from u h e r show ?thesis by (intro conjI)
qed

text \<open>
  C2 as stated fails: for a map of URLs with neither \<open>homepage\<close> nor \<open>bugtracker\<close>, two
  map orders give two source repositories; and two orders of completion give two orders
  of the package list.
\<close>

theorem runs_differ_counterexample:
  "ExtractSourceRepo offline_env [0] (Some links_details)
     = Some \<lparr>sr_Type = ''other'', sr_URL = ''https://example.org/donate'',
              sr_Owner = '''', sr_Repo = ''''\<rparr> \<and>
   ExtractSourceRepo offline_env [1] (Some links_details)
     = Some \<lparr>sr_Type = ''other'', sr_URL = ''https://example.org/help'',
              sr_Owner = '''', sr_Repo = ''''\<rparr> \<and>
   (case FetchAllApps two_apps_env [0] (\<lambda>i. []) of
      Fatal msg err \<Rightarrow> []
    | Returns results \<Rightarrow> map ID (Apps results))
     = [''org.gnome.Calculator'', ''org.gnome.Maps''] \<and>
   (case FetchAllApps two_apps_env [1] (\<lambda>i. []) of
      Fatal msg err \<Rightarrow> []
    | Returns results \<Rightarrow> map ID (Apps results))
     = [''org.gnome.Maps'', ''org.gnome.Calculator'']"
proof (intro conjI)
  show "ExtractSourceRepo offline_env [0] (Some links_details)
     = Some \<lparr>sr_Type = ''other'', sr_URL = ''https://example.org/donate'',
              sr_Owner = '''', sr_Repo = ''''\<rparr>"
    by (simp add: ExtractSourceRepo_def links_details_def range_map_def Let_def)
  show "ExtractSourceRepo offline_env [1] (Some links_details)
     = Some \<lparr>sr_Type = ''other'', sr_URL = ''https://example.org/help'',
              sr_Owner = '''', sr_Repo = ''''\<rparr>"
    by (simp add: ExtractSourceRepo_def links_details_def range_map_def Let_def)
  show "(case FetchAllApps two_apps_env [0] (\<lambda>i. []) of
      Fatal msg err \<Rightarrow> []
    | Returns results \<Rightarrow> map ID (Apps results))
     = [''org.gnome.Calculator'', ''org.gnome.Maps'']"
    by (simp add: two_apps_ids Let_def)
  show "(case FetchAllApps two_apps_env [1] (\<lambda>i. []) of
      Fatal msg err \<Rightarrow> []
    | Returns results \<Rightarrow> map ID (Apps results))
     = [''org.gnome.Maps'', ''org.gnome.Calculator'']"
    by (simp add: two_apps_ids Let_def)
qed



text \<open>
  C4, as the code has it. The release list is not capped, deduplicated or sorted.
  \<open>ConvertFlathubReleases\<close> returns one release of origin \<open>appstream\<close> for each entry of
  the details, in the order of the entries, and that is the list \<open>enrichApp\<close> attaches.
  \<open>EnrichWithMozillaReleases\<close> leaves the list as it is, except for Firefox and
  Thunderbird, whose list becomes the one release of origin \<open>mozilla-release\<close> that a
  successful fetch returns.
\<close>

theorem release_list_as_converted:
  "ConvertFlathubReleases env releases =
     map (\<lambda>release.
            \<lparr>r_Version = fr_Version release,
             r_Date = (case time_Parse env ''2006-01-02'' (fr_Date release) of
                         Inr d \<Rightarrow> d
                       | Inl err \<Rightarrow>
                           (case time_Parse env RFC3339 (fr_Date release) of
                              Inr d \<Rightarrow> d
                            | Inl err \<Rightarrow> time_Now env)),
             r_Title = ''Version '' @ fr_Version release,
             r_Description = fr_Description release, r_URL = '''',
             r_Type = ''appstream''\<rparr>) releases \<and>
   length (ConvertFlathubReleases env releases) = length releases \<and>
   Releases (enrichApp env picks fa) =
     (case FetchAppDetails env (fa_ID fa) of
        Inl err \<Rightarrow> []
      | Inr None \<Rightarrow> []
      | Inr (Some details) \<Rightarrow> ConvertFlathubReleases env (d_Releases details)) \<and>
   map Releases (EnrichWithMozillaReleases env apps) =
     map (\<lambda>app. if ID app = ''org.mozilla.firefox''
                 then (case fetchFirefoxReleases env of
                         Inr releases \<Rightarrow> releases
                       | Inl err \<Rightarrow> Releases app)
                 else if ID app = ''org.mozilla.Thunderbird''
                 then (case fetchThunderbirdReleases env of
                         Inr releases \<Rightarrow> releases
                       | Inl err \<Rightarrow> Releases app)
                 else Releases app) apps \<and>
   (case fetchFirefoxReleases env of
      Inl err \<Rightarrow> True
    | Inr releases \<Rightarrow> length releases = 1 \<and> map r_Type releases = [''mozilla-release'']) \<and>
   (case fetchThunderbirdReleases env of
      Inl err \<Rightarrow> True
    | Inr releases \<Rightarrow> length releases = 1 \<and> map r_Type releases = [''mozilla-release''])"
proof (intro conjI)
  show c: "ConvertFlathubReleases env releases =
     map (\<lambda>release.
            \<lparr>r_Version = fr_Version release,
             r_Date = (case time_Parse env ''2006-01-02'' (fr_Date release) of
                         Inr d \<Rightarrow> d
                       | Inl err \<Rightarrow>
                           (case time_Parse env RFC3339 (fr_Date release) of
                              Inr d \<Rightarrow> d
                            | Inl err \<Rightarrow> time_Now env)),
             r_Title = ''Version '' @ fr_Version release,
             r_Description = fr_Description release, r_URL = '''',
             r_Type = ''appstream''\<rparr>) releases"
    by (simp add: ConvertFlathubReleases_def ConvertFlathubReleases_loop_map)
  show "length (ConvertFlathubReleases env releases) = length releases"
    by (simp only: c length_map)
  show "Releases (enrichApp env picks fa) =
     (case FetchAppDetails env (fa_ID fa) of
        Inl err \<Rightarrow> []
      | Inr None \<Rightarrow> []
      | Inr (Some details) \<Rightarrow> ConvertFlathubReleases env (d_Releases details))"
    by (rule enrichApp_Releases)
  show "map Releases (EnrichWithMozillaReleases env apps) =
     map (\<lambda>app. if ID app = ''org.mozilla.firefox''
                 then (case fetchFirefoxReleases env of
                         Inr releases \<Rightarrow> releases
                       | Inl err \<Rightarrow> Releases app)
                 else if ID app = ''org.mozilla.Thunderbird''
                 then (case fetchThunderbirdReleases env of
                         Inr releases \<Rightarrow> releases
                       | Inl err \<Rightarrow> Releases app)
                 else Releases app) apps"
    by (simp only: EnrichWithMozillaReleases_map map_map comp_def enrich_mozilla_Releases)
  show "case fetchFirefoxReleases env of
      Inl err \<Rightarrow> True
    | Inr releases \<Rightarrow> length releases = 1 \<and> map r_Type releases = [''mozilla-release'']"
    using fetch_mozilla_releases_single [of env _ _ _ _ "extractFirefoxReleaseNotes env"]
    by (simp add: fetchFirefoxReleases_def split: sum.split)
  show "case fetchThunderbirdReleases env of
      Inl err \<Rightarrow> True
    | Inr releases \<Rightarrow> length releases = 1 \<and> map r_Type releases = [''mozilla-release'']"
    using fetch_mozilla_releases_single [of env _ _ _ _ "extractThunderbirdReleaseNotes env"]
    by (simp add: fetchThunderbirdReleases_def split: sum.split)
qed

text \<open>
  C4 as stated fails: for details that list version 49.1 twice, older entry first, the
  Package has after enrichment two releases with the same version and origin, older
  first; and details with 11 entries give 11 releases.
\<close>

theorem release_list_counterexample:
  "map (\<lambda>r. (r_Version r, r_Type r, r_Date r))
     (concat (map Releases
        (EnrichWithMozillaReleases appstream_env
           [enrichApp appstream_env [] (feed_entry ''org.gnome.Calculator'')])))
   = [(''49.1'', ''appstream'', 1760140800), (''49.1'', ''appstream'', 1763596800)] \<and>
   length (ConvertFlathubReleases appstream_env
             (replicate 11 \<lparr>fr_Version = ''49.1'', fr_Date = ''2025-10-11'',
                              fr_Description = ''''\<rparr>)) = 11"
proof
  have d: "FetchAppDetails appstream_env ''org.gnome.Calculator'' =
           Inr (Some \<lparr>d_ID = ''org.gnome.Calculator'', d_Name = '''', d_Summary = '''',
                          d_Description = '''', d_URLs = None,
                          d_Releases = [\<lparr>fr_Version = ''49.1'', fr_Date = ''2025-10-11'',
                                         fr_Description = ''''\<rparr>,
                                        \<lparr>fr_Version = ''49.1'', fr_Date = ''2025-11-20'',
                                         fr_Description = ''''\<rparr>]\<rparr>)"
    by (simp add: FetchAppDetails_def http_Get_def appstream_env_def offline_env_def
        FlathubAPIBase_def StatusOK_def StatusNotFound_def)
  have r: "map (\<lambda>r. (r_Version r, r_Type r, r_Date r))
             (Releases (enrichApp appstream_env [] (feed_entry ''org.gnome.Calculator'')))
           = [(''49.1'', ''appstream'', 1760140800), (''49.1'', ''appstream'', 1763596800)]"
    unfolding enrichApp_Releases
    by (simp add: feed_entry_def d ConvertFlathubReleases_def Let_def)
       (simp add: appstream_env_def offline_env_def)
  have i: "ID (enrichApp appstream_env [] (feed_entry ''org.gnome.Calculator''))
           = ''org.gnome.Calculator''"
    by (simp add: enrichApp_ID feed_entry_def)
  show "map (\<lambda>r. (r_Version r, r_Type r, r_Date r))
     (concat (map Releases
        (EnrichWithMozillaReleases appstream_env
           [enrichApp appstream_env [] (feed_entry ''org.gnome.Calculator'')])))
   = [(''49.1'', ''appstream'', 1760140800), (''49.1'', ''appstream'', 1763596800)]"
    using r by (simp add: EnrichWithMozillaReleases_map enrich_mozilla_Releases i)
  show "length (ConvertFlathubReleases appstream_env
             (replicate 11 \<lparr>fr_Version = ''49.1'', fr_Date = ''2025-10-11'',
                              fr_Description = ''''\<rparr>)) = 11"
    by (simp add: ConvertFlathubReleases_def ConvertFlathubReleases_loop_map)
qed





text \<open>
  C7, as the code has it. On a response with status 404, \<open>FetchAppDetails\<close> returns
  no details and no error, and \<open>enrichApp\<close> keeps the record of the feed;
  \<open>fetchHomebrewPackageMetadata\<close> returns a minimal record and no error; \<open>fetchRawFile\<close>
  returns the error \<open>FileNotFound\<close>, and the two loops that call it skip that file and go
  on with the remaining ones.
\<close>

theorem not_found_handling:
  "(answers env (FlathubAPIBase @ ''/appstream/'' @ fa_ID fa) StatusNotFound \<longrightarrow>
      FetchAppDetails env (fa_ID fa) = Inr None \<and>
      ID (enrichApp env picks fa) = fa_ID fa \<and> Description (enrichApp env picks fa) = '''' \<and>
      Releases (enrichApp env picks fa) = [] \<and> SourceRepo (enrichApp env picks fa) = None) \<and>
   (answers env (''https://formulae.brew.sh/api/formula/'' @ name @ ''.json'') StatusNotFound \<longrightarrow>
      fetchHomebrewPackageMetadata env name = Inr (Some (createMinimalHomebrewApp env name))) \<and>
   (answers env (raw_url path) StatusNotFound \<longrightarrow>
      fetchRawFile env BluefinCommonOwner BluefinCommonRepo BluefinCommonBranch path =
        Inl (FileNotFound path) \<and>
      FetchHomebrewList_loop env allPackages (path # rest) =
        FetchHomebrewList_loop env allPackages rest \<and>
      FetchFlatpakList_loop env infos ((path, appSet) # brewfiles) =
        FetchFlatpakList_loop env infos brewfiles)"
proof (intro conjI impI)
  assume a: "answers env (FlathubAPIBase @ ''/appstream/'' @ fa_ID fa) StatusNotFound"
  from FetchAppDetails_status [OF a status_codes_distinct(1)]
  show d: "FetchAppDetails env (fa_ID fa) = Inr None" by simp
  from enrichApp_no_details [OF d, of picks]
  show "ID (enrichApp env picks fa) = fa_ID fa" "Description (enrichApp env picks fa) = ''''"
    "Releases (enrichApp env picks fa) = []" "SourceRepo (enrichApp env picks fa) = None"
    by simp_all
next
  assume "answers env (''https://formulae.brew.sh/api/formula/'' @ name @ ''.json'') StatusNotFound"
  then show "fetchHomebrewPackageMetadata env name = Inr (Some (createMinimalHomebrewApp env name))"
    by (rule fetchHomebrewPackageMetadata_404)
next
  assume a: "answers env (raw_url path) StatusNotFound"
  from fetchRawFile_status [OF a status_codes_distinct(1)]
  show f: "fetchRawFile env BluefinCommonOwner BluefinCommonRepo BluefinCommonBranch path =
        Inl (FileNotFound path)" by simp
  from loops_skip_failed_file [OF f]
  show "FetchHomebrewList_loop env allPackages (path # rest) =
        FetchHomebrewList_loop env allPackages rest"
    "FetchFlatpakList_loop env infos ((path, appSet) # brewfiles) =
        FetchFlatpakList_loop env infos brewfiles"
    by simp_all
qed

theorem not_found_handling_witness:
  "answers (status_env StatusNotFound) (FlathubAPIBase @ ''/appstream/'' @ fa_ID calculator)
     StatusNotFound \<and>
   answers (status_env StatusNotFound) (''https://formulae.brew.sh/api/formula/'' @ ''bat'' @ ''.json'')
     StatusNotFound \<and>
   answers (status_env StatusNotFound) (raw_url cli_Brewfile) StatusNotFound \<and>
   FetchAppDetails (status_env StatusNotFound) (fa_ID calculator) = Inr None \<and>
   Releases (enrichApp (status_env StatusNotFound) [] calculator) = [] \<and>
   fetchHomebrewPackageMetadata (status_env StatusNotFound) ''bat''
     = Inr (Some (createMinimalHomebrewApp (status_env StatusNotFound) ''bat'')) \<and>
   fetchRawFile (status_env StatusNotFound) BluefinCommonOwner BluefinCommonRepo
     BluefinCommonBranch cli_Brewfile = Inl (FileNotFound cli_Brewfile)"
  using not_found_handling [where env = "status_env StatusNotFound" and fa = calculator
      and picks = "[]" and name = "''bat''" and path = cli_Brewfile]
    status_env_answers [of StatusNotFound]
  by blast

text \<open>
  C7 as stated fails: for a Brewfile whose request is answered 404, \<open>fetchRawFile\<close>
  returns an error, not an empty result with a nil error.
\<close>

theorem not_found_counterexample:
  "fetchRawFile (status_env 404) ''projectbluefin'' ''common'' ''main''
     ''system_files/shared/usr/share/ublue-os/homebrew/cli.Brewfile''
   = Inl (FileNotFound ''system_files/shared/usr/share/ublue-os/homebrew/cli.Brewfile'')"
  by (simp add: fetchRawFile_def status_env_def offline_env_def StatusNotFound_def)

text \<open>
  C8, as the code has it. \<open>fetchRawFile\<close> and the GitHub release request return the
  error \<open>RateLimitExceeded\<close> for status 403 and for no other status; any other status
  that is not handled (429 among them) is the error \<open>UnexpectedStatusCode\<close>.
  \<open>FetchAppDetails\<close> never returns \<open>RateLimitExceeded\<close>: every status other than 200 and
  404 is \<open>UnexpectedStatusCode\<close>. Whatever the error of \<open>fetchRawFile\<close>, the loops that call
  it skip the file and go on with the remaining ones.
\<close>

theorem rate_limit_handling:
  "(answers env (raw_url path) code \<longrightarrow>
      (fetchRawFile env BluefinCommonOwner BluefinCommonRepo BluefinCommonBranch path
         = Inl RateLimitExceeded \<longleftrightarrow> code = StatusForbidden) \<and>
      (code \<noteq> StatusOK \<and> code \<noteq> StatusForbidden \<and> code \<noteq> StatusNotFound \<longrightarrow>
         fetchRawFile env BluefinCommonOwner BluefinCommonRepo BluefinCommonBranch path
           = Inl (UnexpectedStatusCode code))) \<and>
   (answers env releases_url code \<longrightarrow>
      (github_releases_request env = Inl RateLimitExceeded \<longleftrightarrow> code = StatusForbidden) \<and>
      (code \<noteq> StatusOK \<and> code \<noteq> StatusForbidden \<longrightarrow>
         github_releases_request env = Inl (UnexpectedStatusCode code))) \<and>
   (answers env (FlathubAPIBase @ ''/appstream/'' @ appID) code \<longrightarrow>
      code \<noteq> StatusOK \<and> code \<noteq> StatusNotFound \<longrightarrow>
      FetchAppDetails env appID = Inl (UnexpectedStatusCode code)) \<and>
   FetchAppDetails env appID \<noteq> Inl RateLimitExceeded \<and>
   (fetchRawFile env BluefinCommonOwner BluefinCommonRepo BluefinCommonBranch path = Inl err \<longrightarrow>
      FetchHomebrewList_loop env allPackages (path # rest) =
        FetchHomebrewList_loop env allPackages rest \<and>
      FetchFlatpakList_loop env infos ((path, appSet) # brewfiles) =
        FetchFlatpakList_loop env infos brewfiles)"
proof (intro conjI impI)
  assume a: "answers env (raw_url path) code"
  show "fetchRawFile env BluefinCommonOwner BluefinCommonRepo BluefinCommonBranch path
         = Inl RateLimitExceeded \<longleftrightarrow> code = StatusForbidden"
  proof (cases "code = StatusOK")
    case True
    with a fetchRawFile_OK_never_rate_limit [of env path] show ?thesis
      by (simp add: StatusOK_def StatusForbidden_def)
  next
    case False
    from fetchRawFile_status [OF a False] show ?thesis
      using status_codes_distinct(3) by auto
  qed
next
  assume a: "answers env (raw_url path) code"
    and c: "code \<noteq> StatusOK \<and> code \<noteq> StatusForbidden \<and> code \<noteq> StatusNotFound"
  then have "code \<noteq> StatusOK" by simp
  from fetchRawFile_status [OF a this] c
  show "fetchRawFile env BluefinCommonOwner BluefinCommonRepo BluefinCommonBranch path
           = Inl (UnexpectedStatusCode code)" by simp
next
  assume a: "answers env releases_url code"
  show "github_releases_request env = Inl RateLimitExceeded \<longleftrightarrow> code = StatusForbidden"
  proof (cases "code = StatusOK")
    case True
    with a github_releases_request_OK_never_rate_limit [of env] show ?thesis
      by (simp add: StatusOK_def StatusForbidden_def)
  next
    case False
    from github_releases_request_status [OF a False] show ?thesis by auto
  qed
next
  assume a: "answers env releases_url code"
    and c: "code \<noteq> StatusOK \<and> code \<noteq> StatusForbidden"
  then have "code \<noteq> StatusOK" by simp
  from github_releases_request_status [OF a this] c
  show "github_releases_request env = Inl (UnexpectedStatusCode code)" by simp
next
  assume a: "answers env (FlathubAPIBase @ ''/appstream/'' @ appID) code"
    and c: "code \<noteq> StatusOK \<and> code \<noteq> StatusNotFound"
  then have "code \<noteq> StatusOK" by simp
  from FetchAppDetails_status [OF a this] c
  show "FetchAppDetails env appID = Inl (UnexpectedStatusCode code)" by simp
next
  show "FetchAppDetails env appID \<noteq> Inl RateLimitExceeded"
    by (rule FetchAppDetails_never_rate_limit)
next
  assume f: "fetchRawFile env BluefinCommonOwner BluefinCommonRepo BluefinCommonBranch path = Inl err"
  from loops_skip_failed_file [OF f]
  show "FetchHomebrewList_loop env allPackages (path # rest) =
        FetchHomebrewList_loop env allPackages rest"
    "FetchFlatpakList_loop env infos ((path, appSet) # brewfiles) =
        FetchFlatpakList_loop env infos brewfiles"
    by simp_all
qed

theorem rate_limit_handling_witness:
  "answers (status_env 429) (raw_url cli_Brewfile) 429 \<and>
   answers (status_env 429) releases_url 429 \<and>
   answers (status_env 429) (FlathubAPIBase @ ''/appstream/'' @ ''org.gnome.Calculator'') 429 \<and>
   fetchRawFile (status_env 429) BluefinCommonOwner BluefinCommonRepo BluefinCommonBranch
     cli_Brewfile = Inl (UnexpectedStatusCode 429) \<and>
   github_releases_request (status_env 429) = Inl (UnexpectedStatusCode 429) \<and>
   FetchAppDetails (status_env 429) ''org.gnome.Calculator'' = Inl (UnexpectedStatusCode 429)"
proof -
  have c: "(429::int) \<noteq> StatusOK \<and> (429::int) \<noteq> StatusForbidden \<and> (429::int) \<noteq> StatusNotFound"
    by (simp add: StatusOK_def StatusForbidden_def StatusNotFound_def)
  from c rate_limit_handling [where env = "status_env 429" and code = 429
      and path = cli_Brewfile and appID = "''org.gnome.Calculator''"]
    status_env_answers [of 429]
  show ?thesis by blast
qed

text \<open>
  C8 as stated fails: \<open>FetchAppDetails\<close> returns for 403 and 429 the error it returns
  for 500, and \<open>fetchRawFile\<close> returns for 429 the error it returns for 500.
\<close>

theorem rate_limit_counterexample:
  "FetchAppDetails (status_env 403) ''org.gnome.Calculator'' = Inl (UnexpectedStatusCode 403) \<and>
   FetchAppDetails (status_env 429) ''org.gnome.Calculator'' = Inl (UnexpectedStatusCode 429) \<and>
   FetchAppDetails (status_env 500) ''org.gnome.Calculator'' = Inl (UnexpectedStatusCode 500) \<and>
   fetchRawFile (status_env 429) ''projectbluefin'' ''common'' ''main''
     ''system_files/shared/usr/share/ublue-os/homebrew/cli.Brewfile''
     = Inl (UnexpectedStatusCode 429) \<and>
   fetchRawFile (status_env 500) ''projectbluefin'' ''common'' ''main''
     ''system_files/shared/usr/share/ublue-os/homebrew/cli.Brewfile''
     = Inl (UnexpectedStatusCode 500)"
  by (simp add: FetchAppDetails_def http_Get_def fetchRawFile_def status_env_def offline_env_def
      StatusNotFound_def StatusOK_def StatusForbidden_def)

text \<open>
  C9. The release conversion drops draft and pre-release entries: given the decoded
  release list, \<open>FetchBluefinReleases\<close> returns, in order, one release for each entry
  with neither flag set, its description the body rendered by the markdown renderer;
  and every App of \<open>FetchBluefinOSApps\<close> is built from such an entry.
\<close>

theorem FetchBluefinReleases_filters_drafts:
  assumes "github_releases_request env = Inr ghs"
  shows "FetchBluefinReleases env =
           Inr (map (\<lambda>g. \<lparr>r_Version = TagName g, r_Date = PublishedAt g, r_Title = gh_Name g,
                            r_Description = markdown_ToHTML env (gh_Body g), r_URL = HTMLURL g,
                            r_Type = ''bluefin-os-release''\<rparr>)
                    (filter (\<lambda>g. \<not> Draft g \<and> \<not> Prerelease g) ghs))
         \<and> (\<exists>apps. FetchBluefinOSApps env picks = Inr apps \<and>
               (\<forall>a\<in>set apps. \<exists>g\<in>set ghs. \<not> Draft g \<and> \<not> Prerelease g \<and>
                   a = bluefin_os_app env g \<and>
                   map r_Description (Releases a) = [markdown_ToHTML env (gh_Body g)]))"
proof
  show "FetchBluefinReleases env =
           Inr (map (\<lambda>g. \<lparr>r_Version = TagName g, r_Date = PublishedAt g, r_Title = gh_Name g,
                            r_Description = markdown_ToHTML env (gh_Body g), r_URL = HTMLURL g,
                            r_Type = ''bluefin-os-release''\<rparr>)
                    (filter (\<lambda>g. \<not> Draft g \<and> \<not> Prerelease g) ghs))"
    using assms by (simp add: FetchBluefinReleases_def FetchBluefinReleases_loop_eq)
next
  let ?m = "latestByStream_loop env [] ghs"
  let ?apps = "map (\<lambda>kv. bluefin_os_app env (snd kv)) (range_map picks ?m)"
  have inv: "stream_inv env ?m ghs" by (rule latestByStream_inv)
  have run: "FetchBluefinOSApps env picks = Inr ?apps"
    using assms by (simp add: FetchBluefinOSApps_def)
  have "\<forall>a\<in>set ?apps. \<exists>g\<in>set ghs. \<not> Draft g \<and> \<not> Prerelease g \<and>
                   a = bluefin_os_app env g \<and>
                   map r_Description (Releases a) = [markdown_ToHTML env (gh_Body g)]"
  proof
    fix a assume "a \<in> set ?apps"
    then obtain kv where kv: "kv \<in> set (range_map picks ?m)" "a = bluefin_os_app env (snd kv)"
      by auto
    have "entries ?m = ?m"
      using stream_inv_distinct [OF inv] by (rule entries_distinct_id)
    with kv(1) have "kv \<in> set ?m" by (simp add: range_map_def pick_order_set)
    from stream_inv_mem [OF inv this] have "latest_in env ghs (snd kv)" by simp
    then have g: "snd kv \<in> set ghs" and p: "\<not> Draft (snd kv) \<and> \<not> Prerelease (snd kv)"
      by (simp_all add: latest_in_def published_def)
    have "map r_Description (Releases a) = [markdown_ToHTML env (gh_Body (snd kv))]"
      unfolding kv(2) by (rule bluefin_os_app_Releases)
    with p kv(2) have "\<not> Draft (snd kv) \<and> \<not> Prerelease (snd kv) \<and>
                   a = bluefin_os_app env (snd kv) \<and>
                   map r_Description (Releases a) = [markdown_ToHTML env (gh_Body (snd kv))]"
      by simp
    with g show "\<exists>g\<in>set ghs. \<not> Draft g \<and> \<not> Prerelease g \<and>
                   a = bluefin_os_app env g \<and>
                   map r_Description (Releases a) = [markdown_ToHTML env (gh_Body g)]"
      by (rule bexI [rotated])
  qed
  with run show "\<exists>apps. FetchBluefinOSApps env picks = Inr apps \<and>
               (\<forall>a\<in>set apps. \<exists>g\<in>set ghs. \<not> Draft g \<and> \<not> Prerelease g \<and>
                   a = bluefin_os_app env g \<and>
                   map r_Description (Releases a) = [markdown_ToHTML env (gh_Body g)])"
    by (intro exI conjI)
qed

theorem FetchBluefinReleases_filters_drafts_witness:
  "github_releases_request bluefin_env = Inr bluefin_releases \<and>
   map r_Version (case FetchBluefinReleases bluefin_env of Inr rs \<Rightarrow> rs | Inl e \<Rightarrow> [])
     = [''stable-20260127'', ''gts-20260203'', ''stable-20260203'']"
proof -
  have h: "github_releases_request bluefin_env = Inr bluefin_releases"
    by (rule bluefin_env_request)
  from FetchBluefinReleases_filters_drafts [OF h, of "[]"]
  have "FetchBluefinReleases bluefin_env =
           Inr (map (\<lambda>g. \<lparr>r_Version = TagName g, r_Date = PublishedAt g, r_Title = gh_Name g,
                            r_Description = markdown_ToHTML bluefin_env (gh_Body g), r_URL = HTMLURL g,
                            r_Type = ''bluefin-os-release''\<rparr>)
                    (filter (\<lambda>g. \<not> Draft g \<and> \<not> Prerelease g) bluefin_releases))"
    by (rule conjunct1)
  then show ?thesis using h by (simp add: bluefin_releases_def gh_def)
qed

text \<open>
  C10. \<open>FetchBluefinOSApps\<close> emits exactly one App per stream: given the decoded release
  list, the Apps are built from a list of releases whose streams are distinct and are
  exactly the streams of the entries that are neither draft nor pre-release, and each of
  these releases is such an entry, with no entry of its stream published later.
\<close>

theorem FetchBluefinOSApps_latest_per_stream:
  assumes "github_releases_request env = Inr ghs"
  shows "\<exists>latest. FetchBluefinOSApps env picks = Inr (map (bluefin_os_app env) latest) \<and>
           distinct (map (\<lambda>g. Stream (parseOSInfo env g)) latest) \<and>
           set (map (\<lambda>g. Stream (parseOSInfo env g)) latest) =
             (\<lambda>g. Stream (parseOSInfo env g)) ` {g \<in> set ghs. \<not> Draft g \<and> \<not> Prerelease g} \<and>
           (\<forall>g\<in>set latest. g \<in> set ghs \<and> \<not> Draft g \<and> \<not> Prerelease g \<and>
              (\<forall>h\<in>set ghs. \<not> Draft h \<and> \<not> Prerelease h \<and>
                   Stream (parseOSInfo env h) = Stream (parseOSInfo env g)
                   \<longrightarrow> PublishedAt h \<le> PublishedAt g))"
proof -
  let ?m = "latestByStream_loop env [] ghs"
  let ?latest = "map snd (range_map picks ?m)"
  have inv: "stream_inv env ?m ghs" by (rule latestByStream_inv)
  have d: "distinct (map fst ?m)" using inv by (rule stream_inv_distinct)
  have r: "range_map picks ?m = pick_order picks ?m"
    by (simp add: range_map_def entries_distinct_id [OF d])
  have run: "FetchBluefinOSApps env picks = Inr (map (bluefin_os_app env) ?latest)"
    using assms by (simp add: FetchBluefinOSApps_def comp_def)
  have keys: "map (\<lambda>g. Stream (parseOSInfo env g)) ?latest = pick_order picks (map fst ?m)"
  proof -
    have "map (\<lambda>g. Stream (parseOSInfo env g)) ?latest
          = pick_order picks (map (\<lambda>kv. Stream (parseOSInfo env (snd kv))) ?m)"
      by (simp add: r pick_order_map comp_def)
    then show ?thesis by (simp only: stream_inv_fst_map [OF inv])
  qed
  have dist: "distinct (map (\<lambda>g. Stream (parseOSInfo env g)) ?latest)"
    unfolding keys using d by (simp add: pick_order_distinct)
  have "set (map (\<lambda>g. Stream (parseOSInfo env g)) ?latest) = fst ` set ?m"
    unfolding keys by (simp add: pick_order_set)
  also have "\<dots> = streams env ghs" using inv by (rule stream_inv_keys)
  finally have cover: "set (map (\<lambda>g. Stream (parseOSInfo env g)) ?latest) =
             (\<lambda>g. Stream (parseOSInfo env g)) ` {g \<in> set ghs. \<not> Draft g \<and> \<not> Prerelease g}"
    by (simp add: streams_def stream_of_def [abs_def] published_def)
  have best: "\<forall>g\<in>set ?latest. g \<in> set ghs \<and> \<not> Draft g \<and> \<not> Prerelease g \<and>
              (\<forall>h\<in>set ghs. \<not> Draft h \<and> \<not> Prerelease h \<and>
                   Stream (parseOSInfo env h) = Stream (parseOSInfo env g)
                   \<longrightarrow> PublishedAt h \<le> PublishedAt g)"
  proof
    fix g assume "g \<in> set ?latest"
    then obtain kv where kv: "kv \<in> set ?m" and g: "g = snd kv"
      by (auto simp: r pick_order_set)
    from stream_inv_mem [OF inv kv] g have "latest_in env ghs g" by simp
    then show "g \<in> set ghs \<and> \<not> Draft g \<and> \<not> Prerelease g \<and>
              (\<forall>h\<in>set ghs. \<not> Draft h \<and> \<not> Prerelease h \<and>
                   Stream (parseOSInfo env h) = Stream (parseOSInfo env g)
                   \<longrightarrow> PublishedAt h \<le> PublishedAt g)"
      by (simp add: latest_in_def published_def stream_of_def)
  qed
  from run dist cover best show ?thesis by (intro exI conjI)
qed

theorem FetchBluefinOSApps_latest_per_stream_witness:
  "github_releases_request bluefin_env = Inr bluefin_releases \<and>
   map Version (case FetchBluefinOSApps bluefin_env [1] of Inr apps \<Rightarrow> apps | Inl e \<Rightarrow> [])
     = [''gts-20260203'', ''stable-20260203''] \<and>
   (\<exists>latest. FetchBluefinOSApps bluefin_env [1] = Inr (map (bluefin_os_app bluefin_env) latest) \<and>
           distinct (map (\<lambda>g. Stream (parseOSInfo bluefin_env g)) latest) \<and>
           set (map (\<lambda>g. Stream (parseOSInfo bluefin_env g)) latest) =
             (\<lambda>g. Stream (parseOSInfo bluefin_env g)) `
               {g \<in> set bluefin_releases. \<not> Draft g \<and> \<not> Prerelease g} \<and>
           (\<forall>g\<in>set latest. g \<in> set bluefin_releases \<and> \<not> Draft g \<and> \<not> Prerelease g \<and>
              (\<forall>h\<in>set bluefin_releases. \<not> Draft h \<and> \<not> Prerelease h \<and>
                   Stream (parseOSInfo bluefin_env h) = Stream (parseOSInfo bluefin_env g)
                   \<longrightarrow> PublishedAt h \<le> PublishedAt g)))"
proof -
  have h: "github_releases_request bluefin_env = Inr bluefin_releases"
    by (rule bluefin_env_request)
  from h bluefin_env_apps FetchBluefinOSApps_latest_per_stream [OF h, of "[1]"]
  show ?thesis by (intro conjI)
qed

end
